theory Spec2Isabelle
  imports Main
begin

section \<open>JavaScript values used by the debug server\<close>

text \<open>
  Values that travel through the tool interface are JSON values. Numbers that the
  modelled code handles are line numbers, thread ids and ports, so they are integers.
  An absent property (\<open>undefined\<close>) is \<open>None\<close> of an option type.
\<close>

datatype json =
    JNull
  | JBool bool
  | JNum int
  | JString string
  | JArray "json list"
  | JObject "(string \<times> json) list"

text \<open>
  A thrown value: either an \<open>Error\<close> object with its message, or any other value,
  kept as the text \<open>String(err)\<close> gives for it.
\<close>

datatype thrown = Error string | NonError string

text \<open>\<open>err instanceof Error ? err.message : String(err)\<close>\<close>

fun err_text :: "thrown \<Rightarrow> string" where
  "err_text (Error m) = m"
| "err_text (NonError s) = s"

text \<open>JavaScript truthiness of an optional string and of an optional number.\<close>

fun truthy_str :: "string option \<Rightarrow> bool" where
  "truthy_str None = False"
| "truthy_str (Some s) = (s \<noteq> [])"

fun truthy_num :: "int option \<Rightarrow> bool" where
  "truthy_num None = False"
| "truthy_num (Some n) = (n \<noteq> 0)"

text \<open>Decimal rendering of an integer, as a template literal prints a whole number.\<close>

definition digit_char :: "nat \<Rightarrow> char" where
  "digit_char d = ''0123456789'' ! d"

function string_of_nat :: "nat \<Rightarrow> string" where
  "string_of_nat n =
     (if n < 10 then [digit_char n]
      else string_of_nat (n div 10) @ [digit_char (n mod 10)])"
  by pat_completeness auto
termination
  by (relation "measure (\<lambda>n. n)") auto

declare string_of_nat.simps [simp del]

definition string_of_int :: "int \<Rightarrow> string" where
  "string_of_int i =
     (if i < 0 then CHR ''-'' # string_of_nat (nat (- i)) else string_of_nat (nat i))"

section \<open>Tool arguments\<close>

text \<open>
  The \<open>arguments\<close> object of a tool call. Every property is optional at run time
  (the \<open>/tcp\<close> endpoint passes the parsed object on unchecked), except that the
  handlers switch on \<open>action\<close>.
\<close>

record tool_args =
  action :: string
  arg_file :: "string option"
  line :: "int option"
  condition :: "string option"
  hitCondition :: "string option"
  logMessage :: "string option"
  configurationName :: "string option"
  noDebug :: "bool option"
  threadId :: "int option"
  granularity :: "string option"

section \<open>Breakpoints\<close>

text \<open>
  The host's breakpoint store (\<open>vscode.debug.breakpoints\<close>) is a sequence of
  breakpoints in insertion order. A source breakpoint carries the path of its location
  (\<open>location.uri.fsPath\<close>), its 0-based line (\<open>location.range.start.line\<close>), the
  enabled flag and the three optional texts. Breakpoints of other kinds (function
  breakpoints and the like) are not instances of \<open>SourceBreakpoint\<close>.
\<close>

record source_breakpoint =
  bp_fsPath :: string
  bp_line :: int
  bp_enabled :: bool
  bp_condition :: "string option"
  bp_hitCondition :: "string option"
  bp_logMessage :: "string option"

datatype breakpoint = SourceBreakpoint source_breakpoint | OtherBreakpoint nat

type_synonym breakpoint_store = "breakpoint list"

text \<open>
  The editor services the \<open>set\<close> action calls before it builds the breakpoint:
  \<open>openTextDocument\<close> yields a document or throws, \<open>showTextDocument\<close> yields an
  editor or throws. A document and an editor are represented by the path of the
  document's uri, which is all the handler reads from them.
\<close>

record editor_host =
  openTextDocument :: "string \<Rightarrow> thrown + string"
  showTextDocument :: "string \<Rightarrow> thrown + string"

text \<open>One entry of the \<open>list\<close> reply, and the three replies.\<close>

record listed_breakpoint =
  l_file :: string
  l_line :: int
  l_enabled :: bool
  l_condition :: "string option"
  l_hitCondition :: "string option"
  l_logMessage :: "string option"

datatype breakpoints_reply =
    SetReply string string int "string option" "string option" "string option"
  | RemoveReply string nat
  | ListReply "listed_breakpoint list" nat

text \<open>The filter of the \<open>remove\<close> action.\<close>

fun remove_matches :: "string \<Rightarrow> int \<Rightarrow> breakpoint \<Rightarrow> bool" where
  "remove_matches f l (SourceBreakpoint bp) = (bp_fsPath bp = f \<and> bp_line bp = l - 1)"
| "remove_matches f l (OtherBreakpoint _) = False"

text \<open>
  \<open>vscode.debug.addBreakpoints\<close> puts a new breakpoint object at the end of the
  store; \<open>vscode.debug.removeBreakpoints\<close> takes the given breakpoint objects out of
  it. The objects handed to \<open>removeBreakpoints\<close> are the ones a filter selected from
  the store, and two breakpoints with equal fields are selected together, so removing
  by value removes the same objects.
\<close>

definition addBreakpoints :: "breakpoint_store \<Rightarrow> breakpoint list \<Rightarrow> breakpoint_store" where
  "addBreakpoints st bps = st @ bps"

definition removeBreakpoints :: "breakpoint_store \<Rightarrow> breakpoint list \<Rightarrow> breakpoint_store" where
  "removeBreakpoints st bps = filter (\<lambda>b. b \<notin> set bps) st"

text \<open>The \<open>list\<close> action: source breakpoints only, lines made 1-based.\<close>

fun list_entries :: "breakpoint_store \<Rightarrow> listed_breakpoint list" where
  "list_entries [] = []"
| "list_entries (SourceBreakpoint bp # bs) =
     \<lparr>l_file = bp_fsPath bp, l_line = bp_line bp + 1, l_enabled = bp_enabled bp,
      l_condition = bp_condition bp, l_hitCondition = bp_hitCondition bp,
      l_logMessage = bp_logMessage bp\<rparr> # list_entries bs"
| "list_entries (OtherBreakpoint _ # bs) = list_entries bs"

text \<open>
  \<open>handleBreakpoints\<close>: the reply or the thrown error, and the store afterwards.
  \<open>new vscode.Position(line, 0)\<close> rejects a negative line with an illegal-argument
  error, which is the branch before the breakpoint is built.
\<close>

definition handleBreakpoints ::
  "editor_host \<Rightarrow> tool_args \<Rightarrow> breakpoint_store \<Rightarrow> (thrown + breakpoints_reply) \<times> breakpoint_store"
where
  "handleBreakpoints h args st =
    (if action args = ''set'' then
       (if \<not> truthy_str (arg_file args) then (Inl (Error ''file is required for set action''), st)
        else if \<not> truthy_num (line args) then (Inl (Error ''line is required for set action''), st)
        else
          (case openTextDocument h (the (arg_file args)) of
             Inl e \<Rightarrow> (Inl e, st)
           | Inr document \<Rightarrow>
              (case showTextDocument h document of
                 Inl e \<Rightarrow> (Inl e, st)
               | Inr uri \<Rightarrow>
                  (if the (line args) - 1 < 0
                   then (Inl (Error ''Illegal argument: line must be non-negative''), st)
                   else
                     (Inr (SetReply
                        (''Breakpoint set at '' @ the (arg_file args) @ '':'' @ string_of_int (the (line args)))
                        (the (arg_file args)) (the (line args))
                        (condition args) (hitCondition args) (logMessage args)),
                      addBreakpoints st
                        [SourceBreakpoint
                          \<lparr>bp_fsPath = uri, bp_line = the (line args) - 1, bp_enabled = True,
                           bp_condition = condition args, bp_hitCondition = hitCondition args,
                           bp_logMessage = logMessage args\<rparr>])))))
     else if action args = ''remove'' then
       (if \<not> truthy_str (arg_file args) then (Inl (Error ''file is required for remove action''), st)
        else if \<not> truthy_num (line args) then (Inl (Error ''line is required for remove action''), st)
        else
          (let bps = filter (remove_matches (the (arg_file args)) (the (line args))) st in
           if length bps = 0
           then (Inr (RemoveReply
                   (''No breakpoint found at '' @ the (arg_file args) @ '':'' @ string_of_int (the (line args)))
                   0), st)
           else (Inr (RemoveReply
                   (''Removed '' @ string_of_nat (length bps) @ '' breakpoint(s) at '' @ the (arg_file args)
                      @ '':'' @ string_of_int (the (line args)))
                   (length bps)),
                 removeBreakpoints st bps)))
     else if action args = ''list'' then
       (let breakpoints = list_entries st in (Inr (ListReply breakpoints (length breakpoints)), st))
     else (Inl (Error (''Unknown breakpoints action: '' @ action args)), st))"

section \<open>The bridge's port lookup\<close>

text \<open>
  \<open>getPortFromConfig\<close> of the stdio bridge reads \<open>port-config.json\<close>. The file is
  absent, or reading or parsing it throws, or it parses to a JSON value. A parsed
  object carries its properties in the order \<open>Object.entries\<close> enumerates them.
\<close>

datatype config_file = Missing | Unreadable | Parsed json

text \<open>\<open>s.startsWith(p)\<close>\<close>

definition startsWith :: "string \<Rightarrow> string \<Rightarrow> bool" where
  "startsWith s p = (take (length p) s = p)"

text \<open>
  \<open>Object.entries\<close>: the properties of an object, the indexed elements of an array
  or of a string, nothing for a number or a boolean; it throws on \<open>null\<close>.
\<close>

fun object_entries :: "json \<Rightarrow> (string \<times> json) list option" where
  "object_entries JNull = None"
| "object_entries (JObject kvs) = Some kvs"
| "object_entries (JArray xs) = Some (zip (map string_of_nat [0..<length xs]) xs)"
| "object_entries (JString s) =
     Some (zip (map string_of_nat [0..<length s]) (map (\<lambda>c. JString [c]) s))"
| "object_entries (JBool _) = Some []"
| "object_entries (JNum _) = Some []"

text \<open>The test of the loop body: the working directory is the workspace path or lies below it.\<close>

definition path_matches :: "string \<Rightarrow> string \<Rightarrow> string \<Rightarrow> bool" where
  "path_matches sep cwd workspacePath =
     (cwd = workspacePath \<or> startsWith cwd (workspacePath @ sep))"

text \<open>One round of the loop over the entries, on the pair \<open>(bestMatch, bestPort)\<close>.\<close>

fun best_step ::
  "string \<Rightarrow> string \<Rightarrow> string \<times> int option \<Rightarrow> string \<times> json \<Rightarrow> string \<times> int option"
where
  "best_step sep cwd (bestMatch, bestPort) (workspacePath, JNum port) =
     (if path_matches sep cwd workspacePath \<and> length workspacePath > length bestMatch
      then (workspacePath, Some port) else (bestMatch, bestPort))"
| "best_step sep cwd best (workspacePath, _) = best"

text \<open>\<open>Object.values(registry).filter(v => typeof v === 'number')\<close>\<close>

fun number_values :: "(string \<times> json) list \<Rightarrow> int list" where
  "number_values [] = []"
| "number_values ((k, JNum p) # es) = p # number_values es"
| "number_values (_ # es) = number_values es"

definition getPortFromConfig :: "string \<Rightarrow> string \<Rightarrow> config_file \<Rightarrow> int" where
  "getPortFromConfig sep cwd cfg =
     (case cfg of
        Missing \<Rightarrow> 4711
      | Unreadable \<Rightarrow> 4711
      | Parsed registry \<Rightarrow>
         (case object_entries registry of
            None \<Rightarrow> 4711
          | Some entries \<Rightarrow>
             (case snd (foldl (best_step sep cwd) ([], None) entries) of
                Some bestPort \<Rightarrow> bestPort
              | None \<Rightarrow>
                 (case number_values entries of
                    p # _ \<Rightarrow> p
                  | [] \<Rightarrow> 4711))))"

text \<open>
  The spec's words for the lookup, beside the code: a workspace-root key is a prefix of
  the working directory under path-separator boundaries when the working directory
  begins with the key and the key ends where a path component ends, that is, the
  working directory is the key, or the key itself ends with the separator (a
  filesystem root), or the separator follows the key in the working directory. The
  entry the spec chooses is the first one with a port whose key is such a prefix and
  is longer than the key of every such entry before it.
\<close>

definition endsWith :: "string \<Rightarrow> string \<Rightarrow> bool" where
  "endsWith s p = (length p \<le> length s \<and> drop (length s - length p) s = p)"

definition boundary_prefix :: "string \<Rightarrow> string \<Rightarrow> string \<Rightarrow> bool" where
  "boundary_prefix sep cwd root =
     (startsWith cwd root
      \<and> (cwd = root \<or> endsWith root sep \<or> startsWith (drop (length root) cwd) sep))"

fun longest_prefix_step ::
  "string \<Rightarrow> string \<Rightarrow> (string \<times> int) option \<Rightarrow> string \<times> json \<Rightarrow> (string \<times> int) option"
where
  "longest_prefix_step sep cwd best (root, JNum port) =
     (if boundary_prefix sep cwd root
         \<and> (case best of None \<Rightarrow> True | Some (bestRoot, bestPort) \<Rightarrow> length bestRoot < length root)
      then Some (root, port) else best)"
| "longest_prefix_step sep cwd best (root, _) = best"

definition longest_prefix_entry ::
  "string \<Rightarrow> string \<Rightarrow> (string \<times> json) list \<Rightarrow> (string \<times> int) option"
where
  "longest_prefix_entry sep cwd entries = foldl (longest_prefix_step sep cwd) None entries"

text \<open>
  The state of the code's loop and the spec's choice so far hold the same entry.
\<close>

fun same_best :: "string \<times> int option \<Rightarrow> (string \<times> int) option \<Rightarrow> bool" where
  "same_best (bk, None) best = (bk = [] \<and> best = None)"
| "same_best (bk, Some p) best = (best = Some (bk, p))"

section \<open>The debugger host\<close>

type_synonym session = nat

text \<open>An entry of the \<open>configurations\<close> array of launch.json: an object.\<close>

type_synonym config = "(string \<times> json) list"

datatype stack_item = DebugThread int | DebugStackFrame int int

record stack_request =
  req_threadId :: "int option"
  req_startFrame :: int
  req_levels :: int

record frame_source =
  src_path :: "string option"
  src_name :: "string option"

record dap_frame =
  f_id :: int
  f_name :: string
  f_source :: "frame_source option"
  f_line :: int
  f_column :: int

record stack_response =
  stackFrames :: "dap_frame list option"

text \<open>
  What the handlers read from the host: the workspace folders (their paths), the
  configurations of launch.json, the active session and stack item, the answers of the
  debug adapter to the \<open>threads\<close> request (the thread ids, none when the answer has no
  threads) and to the \<open>stackTrace\<close> request, and the text substitution
  \<open>s.replace(/\$\{workspaceFolder\}/g, path)\<close> as a function of the path and \<open>s\<close>.
  The adapter answers every request, with a response or with an error.
\<close>

record debug_host =
  workspaceFolders :: "string list option"
  configurations :: "config list option"
  activeDebugSession :: "session option"
  activeStackItem :: "stack_item option"
  threads_request :: "session \<Rightarrow> thrown + int list"
  stackTrace_request :: "session \<Rightarrow> stack_request \<Rightarrow> thrown + stack_response"
  replace_workspaceFolder :: "string \<Rightarrow> string \<Rightarrow> string"

section \<open>Stopped state\<close>

record frame =
  fr_id :: int
  fr_name :: string
  fr_file :: string
  fr_line :: int
  fr_column :: int

record stopped_state =
  st_file :: string
  st_line :: int
  st_column :: int
  stackTrace :: "frame list"

text \<open>\<open>f.source?.path || f.source?.name || '<unknown>'\<close>\<close>

definition frame_file :: "dap_frame \<Rightarrow> string" where
  "frame_file f =
     (case f_source f of
        None \<Rightarrow> ''<unknown>''
      | Some src \<Rightarrow>
          if truthy_str (src_path src) then the (src_path src)
          else if truthy_str (src_name src) then the (src_name src)
          else ''<unknown>'')"

definition to_frame :: "dap_frame \<Rightarrow> frame" where
  "to_frame f =
     \<lparr>fr_id = f_id f, fr_name = f_name f, fr_file = frame_file f,
      fr_line = f_line f, fr_column = f_column f\<rparr>"

definition stack_request_for :: "int option \<Rightarrow> stack_request" where
  "stack_request_for tid = \<lparr>req_threadId = tid, req_startFrame = 0, req_levels = 20\<rparr>"

text \<open>\<open>stackResponse.stackFrames || []\<close>\<close>

definition frames_of :: "stack_response \<Rightarrow> dap_frame list" where
  "frames_of stackResponse = (case stackFrames stackResponse of None \<Rightarrow> [] | Some fs \<Rightarrow> fs)"

definition gatherStoppedState :: "debug_host \<Rightarrow> session \<Rightarrow> int option \<Rightarrow> thrown + stopped_state" where
  "gatherStoppedState h session tid =
     (case stackTrace_request h session (stack_request_for tid) of
        Inl e \<Rightarrow> Inl e
      | Inr stackResponse \<Rightarrow>
         (case frames_of stackResponse of
            [] \<Rightarrow> Inl (Error ''No stack frames available'')
          | topFrame # rest \<Rightarrow>
              Inr \<lparr>st_file = frame_file topFrame, st_line = f_line topFrame,
                   st_column = f_column topFrame,
                   stackTrace = map to_frame (topFrame # rest)\<rparr>))"

section \<open>Waiting for the debugger to stop\<close>

text \<open>
  The body of a DAP \<open>stopped\<close> event, and what can happen while an operation waits: a
  stopped event of some session is published, some session terminates, the 10 second
  timer fires, or the awaited action (\<open>executeFn\<close>, respectively \<open>startDebugging\<close>)
  throws.
\<close>

record stopped_body =
  body_threadId :: "int option"
  body_reason :: "string option"
  body_description :: "string option"
  body_text :: "string option"

datatype event =
    StoppedEvent session "stopped_body option"
  | TerminatedEvent session
  | TimerFired
  | ExecuteThrew thrown

datatype outcome =
    Stopped (state: stopped_state) (stopReason: "string option")
            (description: "string option") (exceptionText: "string option")
  | NotStopped (reason: string)

text \<open>
  The state of one pending operation: the \<open>resolved\<close> flag, whether each of the two
  subscriptions has been disposed and the timer cleared, every value \<open>resolve\<close> has been
  called with, and every \<open>stackTrace\<close> request sent to the host.
\<close>

record 'r waiter =
  resolved :: bool
  stoppedDisposed :: bool
  terminateDisposed :: bool
  timerCleared :: bool
  resolutions :: "'r list"
  stack_requests :: "(session \<times> stack_request) list"

definition waiter_init :: "'r waiter" where
  "waiter_init =
     \<lparr>resolved = False, stoppedDisposed = False, terminateDisposed = False,
      timerCleared = False, resolutions = [], stack_requests = []\<rparr>"

definition cleanup :: "'r waiter \<Rightarrow> 'r waiter" where
  "cleanup w = w\<lparr>stoppedDisposed := True, terminateDisposed := True, timerCleared := True\<rparr>"

definition resolve :: "'r \<Rightarrow> 'r waiter \<Rightarrow> 'r waiter" where
  "resolve r w = w\<lparr>resolutions := resolutions w @ [r]\<rparr>"

definition settle :: "'r waiter \<Rightarrow> 'r waiter" where
  "settle w = cleanup (w\<lparr>resolved := True\<rparr>)"

definition request_stack :: "session \<Rightarrow> int option \<Rightarrow> 'r waiter \<Rightarrow> 'r waiter" where
  "request_stack session tid w =
     w\<lparr>stack_requests := stack_requests w @ [(session, stack_request_for tid)]\<rparr>"

text \<open>The optional fields of an optional body: \<open>body?.threadId\<close> and the like.\<close>

definition opt_field :: "('b \<Rightarrow> 'a option) \<Rightarrow> 'b option \<Rightarrow> 'a option" where
  "opt_field sel body = (case body of None \<Rightarrow> None | Some b \<Rightarrow> sel b)"

text \<open>
  \<open>executeAndWaitForStop\<close>: one handler run per event. A disposed subscription or a
  cleared timer never calls its handler; a handler that is called looks at \<open>resolved\<close>
  first.
\<close>

fun executeAndWaitForStop_event ::
  "debug_host \<Rightarrow> session \<Rightarrow> int option \<Rightarrow> outcome waiter \<Rightarrow> event \<Rightarrow> outcome waiter"
where
  "executeAndWaitForStop_event h session fallbackThreadId w (StoppedEvent stoppedSession body) =
     (if stoppedDisposed w then w
      else if resolved w then w
      else if stoppedSession = session then
        (let tid = (case opt_field body_threadId body of Some t \<Rightarrow> Some t | None \<Rightarrow> fallbackThreadId);
             w' = request_stack session tid (settle w)
         in case gatherStoppedState h session tid of
              Inr st \<Rightarrow>
                resolve (Stopped st (opt_field body_reason body) (opt_field body_description body)
                           (opt_field body_text body)) w'
            | Inl err \<Rightarrow>
                resolve (NotStopped (''Stopped but failed to get state: '' @ err_text err)) w')
      else w)"
| "executeAndWaitForStop_event h session fallbackThreadId w (TerminatedEvent terminatedSession) =
     (if terminateDisposed w then w
      else if resolved w then w
      else if terminatedSession = session then
        resolve (NotStopped ''Debug session terminated'') (settle w)
      else w)"
| "executeAndWaitForStop_event h session fallbackThreadId w TimerFired =
     (if timerCleared w then w
      else if resolved w then w
      else resolve (NotStopped ''Timed out waiting for program to stop (10s)'') (settle w))"
| "executeAndWaitForStop_event h session fallbackThreadId w (ExecuteThrew err) =
     (if \<not> resolved w
      then resolve (NotStopped (''Execution failed: '' @ err_text err)) (settle w)
      else w)"

definition executeAndWaitForStop ::
  "debug_host \<Rightarrow> session \<Rightarrow> int option \<Rightarrow> event list \<Rightarrow> outcome waiter"
where
  "executeAndWaitForStop h session fallbackThreadId evs =
     foldl (executeAndWaitForStop_event h session fallbackThreadId) waiter_init evs"

text \<open>
  An event is a completion source of the operation on \<open>session\<close> when it is a stopped
  event or the termination of that session, the timer, or the failure of the action.
\<close>

fun fires :: "session \<Rightarrow> event \<Rightarrow> bool" where
  "fires session (StoppedEvent s _) = (s = session)"
| "fires session (TerminatedEvent s) = (s = session)"
| "fires session TimerFired = True"
| "fires session (ExecuteThrew _) = True"

text \<open>
  DAP gives the \<open>levels\<close> argument of a \<open>stackTrace\<close> request as the maximum number
  of frames to return. A host honours it when no answer to a request with a positive
  \<open>levels\<close> holds more frames than that.
\<close>

definition honours_levels :: "debug_host \<Rightarrow> bool" where
  "honours_levels h =
     (\<forall>session req resp.
         stackTrace_request h session req = Inr resp \<and> 0 < req_levels req
           \<longrightarrow> int (length (frames_of resp)) \<le> req_levels req)"

text \<open>The reply built from a stop: the message, the reason, the state, and the two optional texts.\<close>

record stopped_reply =
  r_message :: string
  r_reason :: "string option"
  r_state :: stopped_state
  r_description :: "string option"
  r_exceptionText :: "string option"

datatype launch_result = LaunchMessage string | LaunchStopped stopped_reply

definition stopped_reply_of ::
  "string \<Rightarrow> stopped_state \<Rightarrow> string option \<Rightarrow> string option \<Rightarrow> string option \<Rightarrow> stopped_reply"
where
  "stopped_reply_of prefix st sr sd et =
     \<lparr>r_message = prefix @ st_file st @ '':'' @ string_of_int (st_line st)
         @ (if truthy_str sr then '' ('' @ the sr @ '')'' else []),
      r_reason = sr,
      r_state = st,
      r_description = (if truthy_str sd then sd else None),
      r_exceptionText = (if truthy_str et then et else None)\<rparr>"

text \<open>\<open>waitForLaunchResult\<close>: the same three listeners, none of them looking at the session.\<close>

fun waitForLaunchResult_event ::
  "debug_host \<Rightarrow> launch_result waiter \<Rightarrow> event \<Rightarrow> launch_result waiter"
where
  "waitForLaunchResult_event h w (StoppedEvent session body) =
     (if stoppedDisposed w then w
      else if resolved w then w
      else
        (case opt_field body_threadId body of
           None \<Rightarrow>
             resolve (LaunchMessage ''Debug session started but no thread ID in stopped event'')
               (settle w)
         | Some tid \<Rightarrow>
            (case gatherStoppedState h session (Some tid) of
               Inr st \<Rightarrow>
                 resolve (LaunchStopped
                    (stopped_reply_of ''Debug session started - stopped at '' st
                       (opt_field body_reason body) (opt_field body_description body)
                       (opt_field body_text body)))
                   (request_stack session (Some tid) (settle w))
             | Inl err \<Rightarrow>
                 resolve (LaunchMessage
                    (''Debug session started - stopped but failed to get state: '' @ err_text err))
                   (request_stack session (Some tid) (settle w)))))"
| "waitForLaunchResult_event h w (TerminatedEvent session) =
     (if terminateDisposed w then w
      else if resolved w then w
      else resolve (LaunchMessage ''Debug session terminated'') (settle w))"
| "waitForLaunchResult_event h w TimerFired =
     (if timerCleared w then w
      else if resolved w then w
      else resolve (LaunchMessage ''Debug session started (program is running)'') (settle w))"
| "waitForLaunchResult_event h w (ExecuteThrew err) =
     (if \<not> resolved w
      then resolve (LaunchMessage (''Failed to start debug session: '' @ err_text err)) (settle w)
      else w)"

definition waitForLaunchResult :: "debug_host \<Rightarrow> event list \<Rightarrow> launch_result waiter" where
  "waitForLaunchResult h evs = foldl (waitForLaunchResult_event h) waiter_init evs"

section \<open>The execute tool\<close>

text \<open>\<open>Array.prototype.join\<close> on texts, and \<open>String(v)\<close> of a JSON value.\<close>

fun join_text :: "string \<Rightarrow> string list \<Rightarrow> string" where
  "join_text sep [] = []"
| "join_text sep [x] = x"
| "join_text sep (x # y # ys) = x @ sep @ join_text sep (y # ys)"

fun js_String :: "json \<Rightarrow> string" where
  "js_String JNull = ''null''"
| "js_String (JBool b) = (if b then ''true'' else ''false'')"
| "js_String (JNum n) = string_of_int n"
| "js_String (JString s) = s"
| "js_String (JArray xs) =
     join_text '','' (map (\<lambda>x. if x = JNull then [] else js_String x) xs)"
| "js_String (JObject kvs) = ''[object Object]''"

text \<open>The text \<open>join\<close> gives an element: nothing for \<open>undefined\<close> and \<open>null\<close>.\<close>

definition join_element :: "json option \<Rightarrow> string" where
  "join_element v = (case v of None \<Rightarrow> [] | Some JNull \<Rightarrow> [] | Some x \<Rightarrow> js_String x)"

text \<open>The text a template literal gives a value that may be \<open>undefined\<close>.\<close>

definition template_text :: "json option \<Rightarrow> string" where
  "template_text v = (case v of None \<Rightarrow> ''undefined'' | Some x \<Rightarrow> js_String x)"

text \<open>\<open>replacePlaceholders\<close>, with the substitution on texts as \<open>sub\<close>.\<close>

fun replacePlaceholders :: "(string \<Rightarrow> string) \<Rightarrow> json \<Rightarrow> json" where
  "replacePlaceholders sub (JString s) = JString (sub s)"
| "replacePlaceholders sub (JArray xs) = JArray (map (replacePlaceholders sub) xs)"
| "replacePlaceholders sub (JObject kvs) =
     JObject (map (\<lambda>kv. (fst kv, replacePlaceholders sub (snd kv))) kvs)"
| "replacePlaceholders sub JNull = JNull"
| "replacePlaceholders sub (JBool b) = JBool b"
| "replacePlaceholders sub (JNum n) = JNum n"

text \<open>Assignment to a property: in place when the object has it, at the end otherwise.\<close>

fun set_prop :: "string \<Rightarrow> json \<Rightarrow> config \<Rightarrow> config" where
  "set_prop k v [] = [(k, v)]"
| "set_prop k v (kv # kvs) = (if fst kv = k then (k, v) # kvs else kv # set_prop k v kvs)"

record dap_args =
  dap_threadId :: int
  dap_granularity :: "string option"

datatype executeFn = CustomRequest string dap_args | ExecuteCommand string

datatype execute_reply =
    Message string
  | MultipleConfigurations string "json option list"
  | Configurations "string option" "(json option \<times> json option \<times> json option) list"
  | StoppedAt stopped_reply

text \<open>
  What \<open>handleExecute\<close> does once its own checks are over: it returns a reply at once,
  or it goes on to \<open>waitForLaunchResult\<close> with the workspace folder and the prepared
  configuration, to \<open>stopDebugging\<close>, or to \<open>executeAndWaitForStop\<close> with the session,
  the action to run and the resolved thread id.
\<close>

datatype execute_step =
    Return execute_reply
  | WaitForLaunchResult string config
  | StopDebugging session
  | ExecuteAndWaitForStop session executeFn int

definition dapCommandMap :: "string \<Rightarrow> string" where
  "dapCommandMap a =
     (if a = ''continue'' then ''continue''
      else if a = ''stepOver'' then ''next''
      else if a = ''stepIn'' then ''stepIn''
      else ''stepOut'')"

definition vscodeCommandMap :: "string \<Rightarrow> string" where
  "vscodeCommandMap a =
     (if a = ''continue'' then ''workbench.action.debug.continue''
      else if a = ''stepOver'' then ''workbench.action.debug.stepOver''
      else if a = ''stepIn'' then ''workbench.action.debug.stepInto''
      else ''workbench.action.debug.stepOut'')"

definition resolveThreadId :: "debug_host \<Rightarrow> session \<Rightarrow> int option \<Rightarrow> thrown + int" where
  "resolveThreadId h session explicitThreadId =
     (case explicitThreadId of
        Some t \<Rightarrow> Inr t
      | None \<Rightarrow>
         (case activeStackItem h of
            Some (DebugThread t) \<Rightarrow> Inr t
          | Some (DebugStackFrame t _) \<Rightarrow> Inr t
          | None \<Rightarrow>
             (case threads_request h session of
                Inl e \<Rightarrow> Inl e
              | Inr [] \<Rightarrow> Inl (Error ''No threads available'')
              | Inr (t # _) \<Rightarrow> Inr t)))"

text \<open>\<open>vscode.workspace.workspaceFolders?.[0]\<close>\<close>

definition first_workspaceFolder :: "debug_host \<Rightarrow> string option" where
  "first_workspaceFolder h =
     (case workspaceFolders h of None \<Rightarrow> None | Some [] \<Rightarrow> None | Some (f # _) \<Rightarrow> Some f)"

text \<open>
  The choice of the configuration in the \<open>launch\<close> case: on the left the ways out of
  the handler (a thrown error or a returned reply), on the right the chosen entry.
\<close>

definition choose_config :: "tool_args \<Rightarrow> config list \<Rightarrow> (thrown + execute_reply) + config" where
  "choose_config args cfgs =
     (if truthy_str (configurationName args) then
        (case find (\<lambda>c. map_of c ''name'' = Some (JString (the (configurationName args)))) cfgs of
           None \<Rightarrow>
             Inl (Inl (Error (''Configuration \"'' @ the (configurationName args)
                 @ ''\" not found. Available: ''
                 @ join_text '', '' (map (\<lambda>c. join_element (map_of c ''name'')) cfgs))))
         | Some c \<Rightarrow> Inr c)
      else if length cfgs = 1 then Inr (hd cfgs)
      else
        Inl (Inr (MultipleConfigurations
           ''Multiple debug configurations available. Specify configurationName.''
           (map (\<lambda>c. map_of c ''name'') cfgs))))"

text \<open>Placeholders replaced in every value, then \<open>noDebug\<close> set when asked for.\<close>

definition prepare_config :: "debug_host \<Rightarrow> string \<Rightarrow> tool_args \<Rightarrow> config \<Rightarrow> config" where
  "prepare_config h workspaceFolder args c =
     (let c' = map (\<lambda>kv. (fst kv, replacePlaceholders (replace_workspaceFolder h workspaceFolder) (snd kv))) c
      in if noDebug args = Some True then set_prop ''noDebug'' (JBool True) c' else c')"

definition handleExecute :: "debug_host \<Rightarrow> tool_args \<Rightarrow> thrown + execute_step" where
  "handleExecute h args =
    (if action args = ''launch'' then
       (case first_workspaceFolder h of
          None \<Rightarrow> Inl (Error ''No workspace folder found'')
        | Some workspaceFolder \<Rightarrow>
           (case configurations h of
              None \<Rightarrow> Inl (Error ''No debug configurations found in launch.json'')
            | Some [] \<Rightarrow> Inl (Error ''No debug configurations found in launch.json'')
            | Some (c0 # cs) \<Rightarrow>
               (case choose_config args (c0 # cs) of
                  Inl (Inl e) \<Rightarrow> Inl e
                | Inl (Inr reply) \<Rightarrow> Inr (Return reply)
                | Inr c \<Rightarrow>
                   (case activeDebugSession h of
                      Some _ \<Rightarrow> Inr (Return (Message ''Debug session already active''))
                    | None \<Rightarrow>
                        Inr (WaitForLaunchResult workspaceFolder
                               (prepare_config h workspaceFolder args c))))))
     else if action args = ''stop'' then
       (case activeDebugSession h of
          None \<Rightarrow> Inr (Return (Message ''No active debug session''))
        | Some session \<Rightarrow> Inr (StopDebugging session))
     else if action args \<in> {''continue'', ''stepOver'', ''stepIn'', ''stepOut''} then
       (case activeDebugSession h of
          None \<Rightarrow> Inl (Error ''No active debug session'')
        | Some session \<Rightarrow>
           (case resolveThreadId h session (threadId args) of
              Inl e \<Rightarrow> Inl e
            | Inr tid \<Rightarrow>
               (let useCustomRequest =
                      (threadId args \<noteq> None
                       \<or> (truthy_str (granularity args) \<and> action args \<noteq> ''continue''));
                    fn =
                      (if useCustomRequest then
                         CustomRequest (dapCommandMap (action args))
                           \<lparr>dap_threadId = tid,
                            dap_granularity =
                              (if truthy_str (granularity args) \<and> action args \<noteq> ''continue''
                               then granularity args else None)\<rparr>
                       else ExecuteCommand (vscodeCommandMap (action args)))
                in Inr (ExecuteAndWaitForStop session fn tid))))
     else if action args = ''listConfigurations'' then
       (case first_workspaceFolder h of
          None \<Rightarrow> Inl (Error ''No workspace folder found'')
        | Some workspaceFolder \<Rightarrow>
           (case configurations h of
              None \<Rightarrow>
                Inr (Return (Configurations (Some ''No debug configurations found in launch.json'') []))
            | Some [] \<Rightarrow>
                Inr (Return (Configurations (Some ''No debug configurations found in launch.json'') []))
            | Some (c0 # cs) \<Rightarrow>
                Inr (Return (Configurations None
                  (map (\<lambda>c. (map_of c ''name'', map_of c ''type'', map_of c ''request'')) (c0 # cs))))))
     else Inl (Error (''Unknown execute action: '' @ action args)))"

text \<open>The reply of a continue or step action once \<open>executeAndWaitForStop\<close> has resolved.\<close>

fun step_reply :: "string \<Rightarrow> outcome \<Rightarrow> execute_reply" where
  "step_reply a (Stopped st sr sd et) =
     StoppedAt (stopped_reply_of (a @ '' completed - stopped at '') st sr sd et)"
| "step_reply a (NotStopped r) = Message r"

section \<open>The /tcp endpoint\<close>

text \<open>
  Reading a property of a parsed JSON value: \<open>undefined\<close> for a value that has no
  such property, a \<open>TypeError\<close> on \<open>null\<close>.
\<close>

fun get_prop :: "json \<Rightarrow> string \<Rightarrow> thrown + json option" where
  "get_prop JNull k = Inl (Error (''Cannot read properties of null (reading '' @ [CHR 0x27] @ k @ [CHR 0x27] @ '')''))"
| "get_prop (JObject kvs) k = Inr (map_of kvs k)"
| "get_prop (JBool _) k = Inr None"
| "get_prop (JNum _) k = Inr None"
| "get_prop (JString _) k = Inr None"
| "get_prop (JArray _) k = Inr None"

text \<open>
  \<open>request.tool\<close> and \<open>request.arguments\<close> are read once \<open>request.type\<close> has been,
  so on a request that is not \<open>null\<close>: the read gives the property or \<open>undefined\<close>.
\<close>

definition request_prop :: "json \<Rightarrow> string \<Rightarrow> json option" where
  "request_prop v k = (case get_prop v k of Inl _ \<Rightarrow> None | Inr r \<Rightarrow> r)"

text \<open>
  The three tool handlers as the endpoint sees them: from the \<open>arguments\<close> value to a
  result or a thrown error.
\<close>

record tool_handlers =
  run_execute :: "json option \<Rightarrow> thrown + json"
  run_breakpoints :: "json option \<Rightarrow> thrown + json"
  run_inspect :: "json option \<Rightarrow> thrown + json"

definition handleCommand :: "tool_handlers \<Rightarrow> json option \<Rightarrow> json option \<Rightarrow> thrown + json" where
  "handleCommand hs tool arguments =
     (if tool = Some (JString ''debug_execute'') then run_execute hs arguments
      else if tool = Some (JString ''debug_breakpoints'') then run_breakpoints hs arguments
      else if tool = Some (JString ''debug_inspect'') then run_inspect hs arguments
      else Inl (Error (''Unknown tool: '' @ template_text tool)))"

text \<open>
  The answer of the endpoint: the status code and the envelope. \<open>JSON.stringify\<close>
  leaves out a property whose value is \<open>undefined\<close>, so an absent \<open>data\<close> is \<open>None\<close>.
\<close>

record http_response =
  status :: nat
  success :: bool
  data :: "json option"
  error :: "string option"

definition ok_response :: "json option \<Rightarrow> http_response" where
  "ok_response response = \<lparr>status = 200, success = True, data = response, error = None\<rparr>"

definition error_response :: "thrown \<Rightarrow> http_response" where
  "error_response e =
     \<lparr>status = 500, success = False, data = None,
      error = Some (case e of Error m \<Rightarrow> m | NonError _ \<Rightarrow> ''Unknown error'')\<rparr>"

text \<open>
  The handler of \<open>POST /tcp\<close>, from the outcome of \<open>JSON.parse(body)\<close> (a thrown
  \<open>SyntaxError\<close> or the parsed value) and the list of tools.
\<close>

definition tcp_endpoint :: "json \<Rightarrow> tool_handlers \<Rightarrow> thrown + json \<Rightarrow> http_response" where
  "tcp_endpoint tools hs parsed =
     (case parsed of
        Inl e \<Rightarrow> error_response e
      | Inr request \<Rightarrow>
         (case get_prop request ''type'' of
            Inl e \<Rightarrow> error_response e
          | Inr ty \<Rightarrow>
             if ty = Some (JString ''listTools'') then
               ok_response (Some (JObject [(''tools'', tools)]))
             else if ty = Some (JString ''callTool'') then
               (case handleCommand hs (request_prop request ''tool'') (request_prop request ''arguments'') of
                  Inl e \<Rightarrow> error_response e
                | Inr response \<Rightarrow> ok_response (Some response))
             else ok_response None))"

section \<open>Invariants of a pending operation\<close>

text \<open>While nothing is resolved there is no outcome; once resolved there is exactly one.\<close>

definition settled_once :: "'r waiter \<Rightarrow> bool" where
  "settled_once w = (if resolved w then length (resolutions w) = 1 else resolutions w = [])"

text \<open>Every stopped outcome of a wait holds a state that \<open>gatherStoppedState\<close> returned.\<close>

definition gathered_only :: "debug_host \<Rightarrow> session \<Rightarrow> outcome waiter \<Rightarrow> bool" where
  "gathered_only h session w =
     (\<forall>st r d t. Stopped st r d t \<in> set (resolutions w)
        \<longrightarrow> (\<exists>tid. gatherStoppedState h session tid = Inr st))"

section \<open>Concrete scenarios\<close>

text \<open>
  A substitution for the scenarios: every occurrence of a pattern replaced by a text,
  read from left to right.
\<close>

function literal_replace :: "string \<Rightarrow> string \<Rightarrow> string \<Rightarrow> string" where
  "literal_replace pat rep [] = []"
| "literal_replace pat rep (c # cs) =
     (if pat \<noteq> [] \<and> take (length pat) (c # cs) = pat
      then rep @ literal_replace pat rep (drop (length pat) (c # cs))
      else c # literal_replace pat rep cs)"
  by pat_completeness auto
termination
  by (relation "measure (\<lambda>(pat, rep, s). length s)") auto

definition scenario_frame :: "int \<Rightarrow> dap_frame" where
  "scenario_frame i =
     \<lparr>f_id = i, f_name = ''main'',
      f_source = Some \<lparr>src_path = Some ''/w/app.js'', src_name = Some ''app.js''\<rparr>,
      f_line = 7 + i, f_column = 1\<rparr>"

text \<open>
  A debug adapter that answers a \<open>stackTrace\<close> request as DAP describes it, from the
  call stack it holds: the frames from \<open>startFrame\<close> on, at most \<open>levels\<close> of them when
  \<open>levels\<close> is positive. And one that returns its whole call stack whatever is asked.
\<close>

definition adapter_stackTrace ::
  "dap_frame list \<Rightarrow> session \<Rightarrow> stack_request \<Rightarrow> thrown + stack_response"
where
  "adapter_stackTrace stack session req =
     Inr \<lparr>stackFrames =
           Some (if 0 < req_levels req
                 then take (nat (req_levels req)) (drop (nat (req_startFrame req)) stack)
                 else drop (nat (req_startFrame req)) stack)\<rparr>"

definition whole_stackTrace ::
  "dap_frame list \<Rightarrow> session \<Rightarrow> stack_request \<Rightarrow> thrown + stack_response"
where
  "whole_stackTrace stack session req = Inr \<lparr>stackFrames = Some stack\<rparr>"

definition scenario_config :: config where
  "scenario_config =
     [(''type'', JString ''node''), (''request'', JString ''launch''),
      (''name'', JString ''Launch Program''),
      (''program'', JString ''${workspaceFolder}/app.js'')]"

definition scenario_host :: debug_host where
  "scenario_host =
     \<lparr>workspaceFolders = Some [''/w''],
      configurations = Some [scenario_config],
      activeDebugSession = None,
      activeStackItem = None,
      threads_request = (\<lambda>session. Inr [1]),
      stackTrace_request = adapter_stackTrace (map scenario_frame [0, 1, 2]),
      replace_workspaceFolder = literal_replace ''${workspaceFolder}''\<rparr>"

definition scenario_args :: tool_args where
  "scenario_args =
     \<lparr>action = ''list'', arg_file = None, line = None, condition = None,
      hitCondition = None, logMessage = None, configurationName = None,
      noDebug = None, threadId = None, granularity = None\<rparr>"

definition scenario_editor :: editor_host where
  "scenario_editor = \<lparr>openTextDocument = Inr, showTextDocument = Inr\<rparr>"

definition scenario_breakpoint :: "string \<Rightarrow> int \<Rightarrow> breakpoint" where
  "scenario_breakpoint f l =
     SourceBreakpoint
       \<lparr>bp_fsPath = f, bp_line = l, bp_enabled = True, bp_condition = None,
        bp_hitCondition = None, bp_logMessage = None\<rparr>"

definition scenario_body :: stopped_body where
  "scenario_body =
     \<lparr>body_threadId = Some 1, body_reason = Some ''breakpoint'',
      body_description = None, body_text = None\<rparr>"

text \<open>
  A host whose debug adapter returns a call stack of 21 frames whatever \<open>levels\<close>
  asks for, one whose adapter returns no frame, hosts with two configurations, with
  none and with no workspace folder, and one with an active debug session.
\<close>

definition unbounded_host :: debug_host where
  "unbounded_host =
     scenario_host\<lparr>stackTrace_request := whole_stackTrace (replicate 21 (scenario_frame 0))\<rparr>"

definition empty_stack_host :: debug_host where
  "empty_stack_host = scenario_host\<lparr>stackTrace_request := whole_stackTrace []\<rparr>"

definition tests_config :: config where
  "tests_config =
     [(''type'', JString ''node''), (''request'', JString ''launch''),
      (''name'', JString ''Launch Tests''),
      (''program'', JString ''${workspaceFolder}/test.js'')]"

definition two_config_host :: debug_host where
  "two_config_host = scenario_host\<lparr>configurations := Some [scenario_config, tests_config]\<rparr>"

definition no_config_host :: debug_host where
  "no_config_host = scenario_host\<lparr>configurations := Some []\<rparr>"

definition no_workspace_host :: debug_host where
  "no_workspace_host = scenario_host\<lparr>workspaceFolders := None, configurations := Some []\<rparr>"

definition active_host :: debug_host where
  "active_host = scenario_host\<lparr>activeDebugSession := Some 1\<rparr>"

text \<open>Tool handlers that answer every call with a message.\<close>

definition scenario_handlers :: tool_handlers where
  "scenario_handlers =
     \<lparr>run_execute = (\<lambda>arguments. Inr (JObject [(''message'', JString ''ok'')])),
      run_breakpoints = (\<lambda>arguments. Inr (JObject [(''message'', JString ''ok'')])),
      run_inspect = (\<lambda>arguments. Inr (JObject [(''message'', JString ''ok'')]))\<rparr>"

section \<open>Breakpoint properties\<close>


lemma removeBreakpoints_filter:
  "removeBreakpoints st (filter P st) = filter (\<lambda>b. \<not> P b) st"
  unfolding removeBreakpoints_def by (rule filter_cong) auto

lemma remove_matches_iff:
  "remove_matches f l b \<longleftrightarrow>
     (\<exists>bp. b = SourceBreakpoint bp \<and> bp_fsPath bp = f \<and> bp_line bp = l - 1)"
  by (cases b) auto

text \<open>
  Claim C4. A \<open>remove\<close> call that gives a file and a line (both present as the handler
  reads them: a non-empty file, a line other than 0) leaves in the store exactly the
  breakpoints that are not source breakpoints at that file and at the 0-based line
  \<open>line - 1\<close>, in their order; a breakpoint of the store survives if and only if it is
  not such a source breakpoint, so one at the same line of another file or at
  another line of the same file stays. The reply carries the number of breakpoints
  removed, which is the number by which the store shrinks; when none matches, the
  reply is the message \<open>No breakpoint found at file:line\<close> with count 0 and the store
  is the one before the call.
\<close>

theorem remove_removes_exactly_the_matches:
  assumes "action args = ''remove''" and "arg_file args = Some f" and "f \<noteq> []"
    and "line args = Some l" and "l \<noteq> 0"
  shows "snd (handleBreakpoints h args st) = filter (\<lambda>b. \<not> remove_matches f l b) st
    \<and> (\<forall>b \<in> set st. b \<in> set (snd (handleBreakpoints h args st)) \<longleftrightarrow>
          \<not> (\<exists>bp. b = SourceBreakpoint bp \<and> bp_fsPath bp = f \<and> bp_line bp = l - 1))
    \<and> (\<exists>msg. fst (handleBreakpoints h args st) =
          Inr (RemoveReply msg (length (filter (remove_matches f l) st))))
    \<and> length (filter (remove_matches f l) st) + length (snd (handleBreakpoints h args st))
          = length st
    \<and> (filter (remove_matches f l) st = [] \<longrightarrow>
          handleBreakpoints h args st =
            (Inr (RemoveReply (''No breakpoint found at '' @ f @ '':'' @ string_of_int l) 0), st))"
proof -
  have s: "snd (handleBreakpoints h args st) = filter (\<lambda>b. \<not> remove_matches f l b) st"
    using assms
    by (simp add: handleBreakpoints_def removeBreakpoints_filter Let_def
        filter_empty_conv filter_id_conv)
  have r: "\<exists>msg. fst (handleBreakpoints h args st) =
          Inr (RemoveReply msg (length (filter (remove_matches f l) st)))"
    using assms by (simp add: handleBreakpoints_def Let_def)
  have n: "filter (remove_matches f l) st = [] \<longrightarrow>
          handleBreakpoints h args st =
            (Inr (RemoveReply (''No breakpoint found at '' @ f @ '':'' @ string_of_int l) 0), st)"
    using assms by (simp add: handleBreakpoints_def Let_def)
  have c: "length (filter (remove_matches f l) st)
      + length (filter (\<lambda>b. \<not> remove_matches f l b) st) = length st"
    by (rule sum_length_filter_compl)
  show ?thesis
    using s r n c remove_matches_iff by auto
qed

theorem remove_removes_exactly_the_matches_witness:
  "action (scenario_args\<lparr>action := ''remove'', arg_file := Some ''/w/a.js'', line := Some 3\<rparr>)
      = ''remove''
   \<and> ''/w/a.js'' \<noteq> [] \<and> (3::int) \<noteq> 0
   \<and> snd (handleBreakpoints scenario_editor
        (scenario_args\<lparr>action := ''remove'', arg_file := Some ''/w/a.js'', line := Some 3\<rparr>)
        [scenario_breakpoint ''/w/a.js'' 2, scenario_breakpoint ''/w/b.js'' 2,
         scenario_breakpoint ''/w/a.js'' 7, OtherBreakpoint 0])
      = [scenario_breakpoint ''/w/b.js'' 2, scenario_breakpoint ''/w/a.js'' 7, OtherBreakpoint 0]
   \<and> handleBreakpoints scenario_editor
        (scenario_args\<lparr>action := ''remove'', arg_file := Some ''/w/a.js'', line := Some 3\<rparr>)
        [scenario_breakpoint ''/w/b.js'' 2]
      = (Inr (RemoveReply (''No breakpoint found at /w/a.js:'' @ string_of_int 3) 0),
         [scenario_breakpoint ''/w/b.js'' 2])"
proof -
  let ?a = "scenario_args\<lparr>action := ''remove'', arg_file := Some ''/w/a.js'', line := Some 3\<rparr>"
  have h1: "action ?a = ''remove''" and h2: "arg_file ?a = Some ''/w/a.js''"
    and h3: "''/w/a.js'' \<noteq> []" and h4: "line ?a = Some 3" and h5: "(3::int) \<noteq> 0"
    by simp_all
  note t = remove_removes_exactly_the_matches [OF h1 h2 h3 h4 h5]
  show ?thesis
    using t [of scenario_editor
        "[scenario_breakpoint ''/w/a.js'' 2, scenario_breakpoint ''/w/b.js'' 2,
          scenario_breakpoint ''/w/a.js'' 7, OtherBreakpoint 0]"]
      t [of scenario_editor "[scenario_breakpoint ''/w/b.js'' 2]"]
    by (simp add: scenario_breakpoint_def)
qed



text \<open>
  Claim C10. In the \<open>set\<close> and in the \<open>remove\<close> action a line of 0 is handled as an
  absent line: the call with line 0 gives what the call without a line gives, it
  throws, it leaves the store as it was, and when a file is given the error is
  \<open>line is required for set action\<close>, respectively \<open>line is required for remove action\<close>.
\<close>

theorem line_zero_is_a_missing_line:
  assumes "action args = ''set'' \<or> action args = ''remove''"
  shows "handleBreakpoints h (args\<lparr>line := Some 0\<rparr>) st
           = handleBreakpoints h (args\<lparr>line := None\<rparr>) st
    \<and> snd (handleBreakpoints h (args\<lparr>line := Some 0\<rparr>) st) = st
    \<and> (\<exists>e. fst (handleBreakpoints h (args\<lparr>line := Some 0\<rparr>) st) = Inl e)
    \<and> (truthy_str (arg_file args) \<longrightarrow>
         fst (handleBreakpoints h (args\<lparr>line := Some 0\<rparr>) st) =
           Inl (Error (''line is required for '' @ action args @ '' action'')))"
  using assms by (auto simp: handleBreakpoints_def)

theorem line_zero_is_a_missing_line_witness:
  "truthy_str (arg_file (scenario_args\<lparr>action := ''set'', arg_file := Some ''/w/a.js''\<rparr>))
   \<and> handleBreakpoints scenario_editor
        (scenario_args\<lparr>action := ''set'', arg_file := Some ''/w/a.js'', line := Some 0\<rparr>)
        [scenario_breakpoint ''/w/b.js'' 2]
      = (Inl (Error ''line is required for set action''), [scenario_breakpoint ''/w/b.js'' 2])
   \<and> truthy_str (arg_file (scenario_args\<lparr>action := ''remove'', arg_file := Some ''/w/b.js''\<rparr>))
   \<and> handleBreakpoints scenario_editor
        (scenario_args\<lparr>action := ''remove'', arg_file := Some ''/w/b.js'', line := Some 0\<rparr>)
        [scenario_breakpoint ''/w/b.js'' (- 1)]
      = (Inl (Error ''line is required for remove action''), [scenario_breakpoint ''/w/b.js'' (- 1)])"
proof -
  let ?s = "scenario_args\<lparr>action := ''set'', arg_file := Some ''/w/a.js''\<rparr>"
  let ?r = "scenario_args\<lparr>action := ''remove'', arg_file := Some ''/w/b.js''\<rparr>"
  have hs: "action ?s = ''set'' \<or> action ?s = ''remove''"
    and hr: "action ?r = ''set'' \<or> action ?r = ''remove''"
    by simp_all
  note ts = line_zero_is_a_missing_line [OF hs, of scenario_editor "[scenario_breakpoint ''/w/b.js'' 2]"]
  note tr = line_zero_is_a_missing_line [OF hr, of scenario_editor "[scenario_breakpoint ''/w/b.js'' (- 1)]"]
  have s1: "fst (handleBreakpoints scenario_editor (?s\<lparr>line := Some 0\<rparr>)
               [scenario_breakpoint ''/w/b.js'' 2])
             = Inl (Error ''line is required for set action'')"
    using ts [THEN conjunct2, THEN conjunct2, THEN conjunct2] by simp
  have s2: "snd (handleBreakpoints scenario_editor (?s\<lparr>line := Some 0\<rparr>)
               [scenario_breakpoint ''/w/b.js'' 2]) = [scenario_breakpoint ''/w/b.js'' 2]"
    using ts [THEN conjunct2, THEN conjunct1] by simp
  have r1: "fst (handleBreakpoints scenario_editor (?r\<lparr>line := Some 0\<rparr>)
               [scenario_breakpoint ''/w/b.js'' (- 1)])
             = Inl (Error ''line is required for remove action'')"
    using tr [THEN conjunct2, THEN conjunct2, THEN conjunct2] by simp
  have r2: "snd (handleBreakpoints scenario_editor (?r\<lparr>line := Some 0\<rparr>)
               [scenario_breakpoint ''/w/b.js'' (- 1)]) = [scenario_breakpoint ''/w/b.js'' (- 1)]"
    using tr [THEN conjunct2, THEN conjunct1] by simp
  show ?thesis
    using s1 s2 r1 r2 by (simp add: prod_eq_iff)
qed

section \<open>Port lookup properties\<close>

lemma path_matches_is_boundary_prefix:
  assumes "path_matches sep cwd k"
  shows "boundary_prefix sep cwd k"
proof -
  from assms consider "cwd = k" | "take (length k + length sep) cwd = k @ sep"
    by (auto simp: path_matches_def startsWith_def)
  then show ?thesis
  proof cases
    case 1
    then show ?thesis by (simp add: boundary_prefix_def startsWith_def)
  next
    case 2
    have "take (length k + length sep) cwd
        = take (length k) cwd @ take (length sep) (drop (length k) cwd)"
      by (rule take_add)
    with 2 have e: "take (length k) cwd @ take (length sep) (drop (length k) cwd) = k @ sep"
      by simp
    have l: "length (take (length k) cwd) = length k"
    proof -
      have "length (take (length k + length sep) cwd) = length (k @ sep)" using 2 by simp
      then show ?thesis by simp
    qed
    from e l have "take (length k) cwd = k \<and> take (length sep) (drop (length k) cwd) = sep"
      by (simp add: append_eq_append_conv)
    then show ?thesis by (simp add: boundary_prefix_def startsWith_def)
  qed
qed

lemma boundary_prefix_is_path_match:
  assumes "boundary_prefix sep cwd k" and "\<not> endsWith k sep"
  shows "path_matches sep cwd k"
proof -
  from assms have p: "take (length k) cwd = k"
    and c: "cwd = k \<or> take (length sep) (drop (length k) cwd) = sep"
    by (auto simp: boundary_prefix_def startsWith_def)
  from c show ?thesis
  proof
    assume "cwd = k"
    then show ?thesis by (simp add: path_matches_def)
  next
    assume s: "take (length sep) (drop (length k) cwd) = sep"
    have "take (length k + length sep) cwd
        = take (length k) cwd @ take (length sep) (drop (length k) cwd)"
      by (rule take_add)
    then have "take (length (k @ sep)) cwd = k @ sep" using p s by simp
    then show ?thesis by (simp add: path_matches_def startsWith_def)
  qed
qed

text \<open>The entry the spec's words choose: a matching entry that no matching entry exceeds.\<close>

lemma longest_prefix_fold:
  "foldl (longest_prefix_step sep cwd) best es = r \<Longrightarrow>
     (\<forall>k' p'. (k', JNum p') \<in> set es \<and> boundary_prefix sep cwd k' \<longrightarrow>
        (\<exists>k p. r = Some (k, p) \<and> length k' \<le> length k))
     \<and> (r = best
         \<or> (\<exists>k p. r = Some (k, p) \<and> (k, JNum p) \<in> set es \<and> boundary_prefix sep cwd k))
     \<and> (\<forall>bk bp. best = Some (bk, bp) \<longrightarrow> (\<exists>k p. r = Some (k, p) \<and> length bk \<le> length k))"
proof (induction es arbitrary: best)
  case Nil
  then show ?case by auto
next
  case (Cons e es)
  obtain k0 v0 where e: "e = (k0, v0)" by (cases e)
  define b' where "b' = longest_prefix_step sep cwd best e"
  from Cons.prems have f: "foldl (longest_prefix_step sep cwd) b' es = r"
    by (simp add: b'_def)
  note ih = Cons.IH [OF f]
  have keep: "\<forall>bk bp. best = Some (bk, bp) \<longrightarrow> (\<exists>k p. b' = Some (k, p) \<and> length bk \<le> length k)"
    unfolding b'_def e by (cases v0) (auto split: option.splits)
  have here: "\<forall>p'. v0 = JNum p' \<and> boundary_prefix sep cwd k0 \<longrightarrow>
      (\<exists>k p. b' = Some (k, p) \<and> length k0 \<le> length k)"
    unfolding b'_def e by (auto split: option.splits)
  have origin: "b' = best \<or> (\<exists>p. b' = Some (k0, p) \<and> v0 = JNum p \<and> boundary_prefix sep cwd k0)"
    unfolding b'_def e by (cases v0) (auto split: option.splits)
  show ?case
  proof (intro conjI allI impI)
    fix k' p' assume a: "(k', JNum p') \<in> set (e # es) \<and> boundary_prefix sep cwd k'"
    show "\<exists>k p. r = Some (k, p) \<and> length k' \<le> length k"
    proof (cases "(k', JNum p') = e")
      case True
      with here e a obtain k p where b: "b' = Some (k, p)" "length k' \<le> length k" by auto
      from ih b(1) obtain k2 p2 where "r = Some (k2, p2)" "length k \<le> length k2" by blast
      with b(2) show ?thesis by auto
    next
      case False
      with a ih show ?thesis by auto
    qed
  next
    show "r = best \<or> (\<exists>k p. r = Some (k, p) \<and> (k, JNum p) \<in> set (e # es) \<and> boundary_prefix sep cwd k)"
      using ih origin e by auto
  next
    fix bk bp assume "best = Some (bk, bp)"
    with keep obtain k p where b: "b' = Some (k, p)" "length bk \<le> length k" by blast
    from ih b(1) obtain k2 p2 where "r = Some (k2, p2)" "length k \<le> length k2" by blast
    with b(2) show "\<exists>k p. r = Some (k, p) \<and> length bk \<le> length k" by auto
  qed
qed

lemma longest_prefix_entry_Some:
  assumes "longest_prefix_entry sep cwd es = Some (k, p)"
  shows "(k, JNum p) \<in> set es \<and> boundary_prefix sep cwd k
    \<and> (\<forall>k' p'. (k', JNum p') \<in> set es \<and> boundary_prefix sep cwd k' \<longrightarrow> length k' \<le> length k)"
  using longest_prefix_fold [OF assms [unfolded longest_prefix_entry_def]] by auto

lemma longest_prefix_entry_None:
  assumes "longest_prefix_entry sep cwd es = None"
  shows "\<forall>k' p'. (k', JNum p') \<in> set es \<longrightarrow> \<not> boundary_prefix sep cwd k'"
  using longest_prefix_fold [OF assms [unfolded longest_prefix_entry_def]] by auto

lemma same_best_step:
  assumes "same_best st best"
    and "\<forall>p. snd e = JNum p \<longrightarrow> fst e \<noteq> [] \<and> \<not> endsWith (fst e) sep"
  shows "same_best (best_step sep cwd st e) (longest_prefix_step sep cwd best e)"
proof -
  obtain bk bp where st: "st = (bk, bp)" by (cases st)
  obtain k v where e: "e = (k, v)" by (cases e)
  show ?thesis
  proof (cases v)
    case (JNum p)
    with assms e have k: "k \<noteq> []" "\<not> endsWith k sep" by auto
    have m: "path_matches sep cwd k \<longleftrightarrow> boundary_prefix sep cwd k"
      using path_matches_is_boundary_prefix boundary_prefix_is_path_match k(2) by blast
    show ?thesis
      using assms(1) k(1) unfolding st e JNum
      by (cases bp) (auto simp: m)
  qed (insert assms(1), simp_all add: st e)
qed

lemma same_best_fold:
  assumes "same_best st best"
    and "\<forall>k p. (k, JNum p) \<in> set es \<longrightarrow> k \<noteq> [] \<and> \<not> endsWith k sep"
  shows "same_best (foldl (best_step sep cwd) st es) (foldl (longest_prefix_step sep cwd) best es)"
  using assms
proof (induction es arbitrary: st best)
  case Nil
  then show ?case by simp
next
  case (Cons e es)
  have "same_best (best_step sep cwd st e) (longest_prefix_step sep cwd best e)"
  proof (rule same_best_step [OF Cons.prems(1)])
    show "\<forall>p. snd e = JNum p \<longrightarrow> fst e \<noteq> [] \<and> \<not> endsWith (fst e) sep"
      using Cons.prems(2) by (cases e) auto
  qed
  moreover have "\<forall>k p. (k, JNum p) \<in> set es \<longrightarrow> k \<noteq> [] \<and> \<not> endsWith k sep"
    using Cons.prems(2) by auto
  ultimately show ?case using Cons.IH by simp
qed

lemma port_lookup_agrees_off_roots:
  assumes "\<forall>k p. (k, JNum p) \<in> set es \<longrightarrow> k \<noteq> [] \<and> \<not> endsWith k sep"
  shows "getPortFromConfig sep cwd (Parsed (JObject es)) =
     (case longest_prefix_entry sep cwd es of
        Some (k, p) \<Rightarrow> p
      | None \<Rightarrow> (case number_values es of p # _ \<Rightarrow> p | [] \<Rightarrow> 4711))"
proof -
  have "same_best ([], None) None" by simp
  from same_best_fold [OF this assms, of cwd]
  have s: "same_best (foldl (best_step sep cwd) ([], None) es) (longest_prefix_entry sep cwd es)"
    by (simp add: longest_prefix_entry_def)
  obtain bk bp where f: "foldl (best_step sep cwd) ([], None) es = (bk, bp)"
    by (cases "foldl (best_step sep cwd) ([], None) es")
  show ?thesis
    using s unfolding f by (cases bp) (simp_all add: getPortFromConfig_def f)
qed

lemma port_lookup_nested_roots:
  "getPortFromConfig ''/'' ''/a/b/c'' (Parsed (JObject [(''/a'', JNum p), (''/a/b'', JNum q)])) = q
   \<and> getPortFromConfig ''/'' ''/a/b/c'' (Parsed (JObject [(''/a/b'', JNum q), (''/a'', JNum p)])) = q"
  by (simp add: getPortFromConfig_def path_matches_def startsWith_def)

lemma port_lookup_defaults:
  "getPortFromConfig sep cwd (Parsed (JObject [])) = 4711
   \<and> getPortFromConfig sep cwd Missing = 4711
   \<and> getPortFromConfig sep cwd Unreadable = 4711"
  by (simp add: getPortFromConfig_def)

text \<open>
  Claim C3. The claim asks, for every registry and working directory, for the port of
  the entry whose workspace-root key is the longest prefix of the working directory
  under path-separator boundaries. With the roots \<open>/x\<close> (port 5001) and \<open>/\<close> (port 5000)
  registered and the working directory \<open>/a/b\<close>, that entry is the one of \<open>/\<close>, the
  only key that is a prefix of the working directory. The lookup returns 5001: its
  test asks for the working directory to be the key or to begin with the key followed
  by the separator, here \<open>//\<close>, so it matches no key and falls back to the first
  entry. Where no key with a port is empty or ends with the separator, the lookup
  returns what the claim asks for (\<open>port_lookup_agrees_off_roots\<close>), with the fallback
  to the first port and to 4711 as the claim has them.
\<close>

theorem port_lookup_misses_root_key:
  "longest_prefix_entry ''/'' ''/a/b'' [(''/x'', JNum 5001), (''/'', JNum 5000)] = Some (''/'', 5000)
   \<and> getPortFromConfig ''/'' ''/a/b'' (Parsed (JObject [(''/x'', JNum 5001), (''/'', JNum 5000)]))
       = 5001"
  by (simp add: longest_prefix_entry_def boundary_prefix_def endsWith_def startsWith_def
      getPortFromConfig_def path_matches_def)

section \<open>Properties of the wait for a stop\<close>

lemma foldl_fixed:
  "(\<And>e. e \<in> set es \<Longrightarrow> f w e = w) \<Longrightarrow> foldl f w es = w"
  by (induction es) simp_all

lemma stop_event_after_resolved:
  "resolved w \<Longrightarrow> executeAndWaitForStop_event h session fb w e = w"
  by (cases e) simp_all

lemma stop_event_not_firing:
  "\<not> fires session e \<Longrightarrow> executeAndWaitForStop_event h session fb w e = w"
  by (cases e) simp_all

lemma stop_event_fresh:
  assumes "fires session e"
  shows "resolved (executeAndWaitForStop_event h session fb waiter_init e)
    \<and> stoppedDisposed (executeAndWaitForStop_event h session fb waiter_init e)
    \<and> terminateDisposed (executeAndWaitForStop_event h session fb waiter_init e)
    \<and> timerCleared (executeAndWaitForStop_event h session fb waiter_init e)
    \<and> length (resolutions (executeAndWaitForStop_event h session fb waiter_init e)) = 1"
  using assms
  by (cases e)
     (simp_all add: waiter_init_def settle_def cleanup_def resolve_def request_stack_def
        Let_def split: sum.splits option.splits)

lemma stop_run_quiet:
  assumes "\<forall>e \<in> set evs. \<not> fires session e"
  shows "executeAndWaitForStop h session fb evs = waiter_init"
  unfolding executeAndWaitForStop_def
  using assms by (intro foldl_fixed stop_event_not_firing) simp

lemma stop_run_first:
  assumes "\<forall>e \<in> set pre. \<not> fires session e" and "fires session e"
  shows "executeAndWaitForStop h session fb (pre @ e # post)
           = executeAndWaitForStop_event h session fb waiter_init e"
proof -
  have p: "foldl (executeAndWaitForStop_event h session fb) waiter_init pre = waiter_init"
    using stop_run_quiet [OF assms(1)] by (simp add: executeAndWaitForStop_def)
  have r: "resolved (executeAndWaitForStop_event h session fb waiter_init e)"
    using stop_event_fresh [OF assms(2)] by simp
  have "foldl (executeAndWaitForStop_event h session fb)
          (executeAndWaitForStop_event h session fb waiter_init e) post
        = executeAndWaitForStop_event h session fb waiter_init e"
    by (rule foldl_fixed) (rule stop_event_after_resolved [OF r])
  then show ?thesis
    by (simp add: executeAndWaitForStop_def p)
qed

lemma stop_event_settled_once:
  "settled_once w \<Longrightarrow> settled_once (executeAndWaitForStop_event h session fb w e)"
  by (cases e)
     (auto simp: settled_once_def settle_def cleanup_def resolve_def request_stack_def
        Let_def split: sum.splits option.splits if_splits)

lemma stop_run_settled_once:
  "settled_once w \<Longrightarrow> settled_once (foldl (executeAndWaitForStop_event h session fb) w evs)"
  by (induction evs arbitrary: w) (simp_all add: stop_event_settled_once)

lemma stop_run_at_most_one:
  "length (resolutions (executeAndWaitForStop h session fb evs)) \<le> 1"
proof -
  have "settled_once (waiter_init :: outcome waiter)"
    by (simp add: settled_once_def waiter_init_def)
  then have "settled_once (executeAndWaitForStop h session fb evs)"
    unfolding executeAndWaitForStop_def by (rule stop_run_settled_once)
  then show ?thesis
    by (auto simp: settled_once_def split: if_splits)
qed

text \<open>
  Claim C1. Whatever happens while \<open>executeAndWaitForStop\<close> waits, \<open>resolve\<close> is called at
  most once, and exactly once as soon as a source has fired. While no source has fired
  (stopped events and terminations of other sessions do not count) the operation is
  pending and untouched. The first source to
  fire settles it: the operation is then in the state that this one event produces
  from the start, with exactly one outcome, the \<open>resolved\<close> flag set, both
  subscriptions disposed and the timer cleared, and nothing that happens later changes
  that state. The outcome is \<open>Debug session terminated\<close> for the termination, the
  time-out message for the timer, \<open>Execution failed: \<close> followed by the error text when
  the action throws first, and for a stopped event the stopped state with the event's
  reason, description and text, or the failure to get that state.
\<close>

theorem executeAndWaitForStop_settles_once:
  "length (resolutions (executeAndWaitForStop h session fb evs)) \<le> 1
   \<and> ((\<forall>e \<in> set evs. \<not> fires session e) \<longrightarrow>
         executeAndWaitForStop h session fb evs = waiter_init)
   \<and> ((\<exists>e \<in> set evs. fires session e) \<longrightarrow>
         length (resolutions (executeAndWaitForStop h session fb evs)) = 1)
   \<and> ((\<forall>e \<in> set pre. \<not> fires session e) \<and> fires session e \<longrightarrow>
         executeAndWaitForStop h session fb (pre @ e # post)
           = executeAndWaitForStop h session fb [e]
         \<and> length (resolutions (executeAndWaitForStop h session fb [e])) = 1
         \<and> resolved (executeAndWaitForStop h session fb [e])
         \<and> stoppedDisposed (executeAndWaitForStop h session fb [e])
         \<and> terminateDisposed (executeAndWaitForStop h session fb [e])
         \<and> timerCleared (executeAndWaitForStop h session fb [e]))
   \<and> resolutions (executeAndWaitForStop h session fb [TerminatedEvent session])
        = [NotStopped ''Debug session terminated'']
   \<and> resolutions (executeAndWaitForStop h session fb [TimerFired])
        = [NotStopped ''Timed out waiting for program to stop (10s)'']
   \<and> resolutions (executeAndWaitForStop h session fb [ExecuteThrew err])
        = [NotStopped (''Execution failed: '' @ err_text err)]
   \<and> ((\<exists>st. resolutions (executeAndWaitForStop h session fb [StoppedEvent session body])
              = [Stopped st (opt_field body_reason body) (opt_field body_description body)
                   (opt_field body_text body)])
        \<or> (\<exists>m. resolutions (executeAndWaitForStop h session fb [StoppedEvent session body])
              = [NotStopped (''Stopped but failed to get state: '' @ m)]))"
proof -
  have one: "executeAndWaitForStop h session fb [e] = executeAndWaitForStop_event h session fb waiter_init e"
    for e by (simp add: executeAndWaitForStop_def)
  have a: "(\<forall>e \<in> set evs. \<not> fires session e) \<longrightarrow>
         executeAndWaitForStop h session fb evs = waiter_init"
    using stop_run_quiet by blast
  have b: "(\<forall>e \<in> set pre. \<not> fires session e) \<and> fires session e \<longrightarrow>
         executeAndWaitForStop h session fb (pre @ e # post)
           = executeAndWaitForStop h session fb [e]
         \<and> length (resolutions (executeAndWaitForStop h session fb [e])) = 1
         \<and> resolved (executeAndWaitForStop h session fb [e])
         \<and> stoppedDisposed (executeAndWaitForStop h session fb [e])
         \<and> terminateDisposed (executeAndWaitForStop h session fb [e])
         \<and> timerCleared (executeAndWaitForStop h session fb [e])"
    unfolding one using stop_run_first stop_event_fresh by blast
  have c: "resolutions (executeAndWaitForStop h session fb [TerminatedEvent session])
        = [NotStopped ''Debug session terminated'']"
    "resolutions (executeAndWaitForStop h session fb [TimerFired])
        = [NotStopped ''Timed out waiting for program to stop (10s)'']"
    "resolutions (executeAndWaitForStop h session fb [ExecuteThrew err])
        = [NotStopped (''Execution failed: '' @ err_text err)]"
    by (simp_all add: one waiter_init_def settle_def cleanup_def resolve_def)
  have d: "(\<exists>st. resolutions (executeAndWaitForStop h session fb [StoppedEvent session body])
              = [Stopped st (opt_field body_reason body) (opt_field body_description body)
                   (opt_field body_text body)])
        \<or> (\<exists>m. resolutions (executeAndWaitForStop h session fb [StoppedEvent session body])
              = [NotStopped (''Stopped but failed to get state: '' @ m)])"
    by (simp add: one waiter_init_def settle_def cleanup_def resolve_def request_stack_def
        Let_def split: sum.splits)
  have x: "(\<exists>e \<in> set evs. fires session e) \<longrightarrow>
         length (resolutions (executeAndWaitForStop h session fb evs)) = 1"
  proof
    assume "\<exists>e \<in> set evs. fires session e"
    then obtain ys e zs where s: "evs = ys @ e # zs" "fires session e"
      "\<forall>y \<in> set ys. \<not> fires session y"
      using split_list_first_prop [of evs "fires session"] by blast
    have "executeAndWaitForStop h session fb evs
        = executeAndWaitForStop_event h session fb waiter_init e"
      unfolding s(1) by (rule stop_run_first [OF s(3) s(2)])
    then show "length (resolutions (executeAndWaitForStop h session fb evs)) = 1"
      using stop_event_fresh [OF s(2)] by simp
  qed
  show ?thesis
    using stop_run_at_most_one [of h session fb evs] a b c d x by blast
qed

theorem executeAndWaitForStop_settles_once_witness:
  "\<not> fires 1 (StoppedEvent 2 (Some scenario_body)) \<and> \<not> fires 1 (TerminatedEvent 2)
   \<and> fires 1 (TerminatedEvent 1)
   \<and> executeAndWaitForStop scenario_host 1 None
        [StoppedEvent 2 (Some scenario_body), TerminatedEvent 2] = waiter_init
   \<and> resolutions (executeAndWaitForStop scenario_host 1 None
        ([StoppedEvent 2 (Some scenario_body), TerminatedEvent 2] @ TerminatedEvent 1
           # [TimerFired, StoppedEvent 1 (Some scenario_body), ExecuteThrew (Error ''late'')]))
       = [NotStopped ''Debug session terminated'']"
proof -
  let ?pre = "[StoppedEvent 2 (Some scenario_body), TerminatedEvent 2]"
  let ?post = "[TimerFired, StoppedEvent 1 (Some scenario_body), ExecuteThrew (Error ''late'')]"
  have q: "\<forall>e \<in> set ?pre. \<not> fires 1 e" by simp
  have f: "fires 1 (TerminatedEvent 1)" by simp
  note t = executeAndWaitForStop_settles_once
    [of scenario_host 1 None ?pre ?pre "TerminatedEvent 1" ?post]
  from t q have a: "executeAndWaitForStop scenario_host 1 None ?pre = waiter_init"
    by blast
  from t q f have "executeAndWaitForStop scenario_host 1 None (?pre @ TerminatedEvent 1 # ?post)
      = executeAndWaitForStop scenario_host 1 None [TerminatedEvent 1]"
    by blast
  moreover from t have "resolutions (executeAndWaitForStop scenario_host 1 None [TerminatedEvent 1])
      = [NotStopped ''Debug session terminated'']"
    by blast
  ultimately have b: "resolutions (executeAndWaitForStop scenario_host 1 None
        (?pre @ TerminatedEvent 1 # ?post)) = [NotStopped ''Debug session terminated'']"
    by simp
  show ?thesis
    using a b q f by simp
qed

section \<open>Properties of the stopped state\<close>

lemma gathered_state:
  assumes "gatherStoppedState h session tid = Inr st"
  shows "stackTrace st \<noteq> []
    \<and> st_file st = fr_file (hd (stackTrace st))
    \<and> st_line st = fr_line (hd (stackTrace st))
    \<and> st_column st = fr_column (hd (stackTrace st))
    \<and> (\<exists>resp. stackTrace_request h session (stack_request_for tid) = Inr resp
          \<and> stackTrace st = map to_frame (frames_of resp))"
  using assms
  by (auto simp: gatherStoppedState_def to_frame_def split: sum.splits list.splits)

lemma gathered_nothing:
  assumes "stackTrace_request h session (stack_request_for tid) = Inr resp"
    and "frames_of resp = []"
  shows "gatherStoppedState h session tid = Inl (Error ''No stack frames available'')"
  using assms by (simp add: gatherStoppedState_def)

lemma stop_event_gathered_only:
  "gathered_only h session w \<Longrightarrow>
     gathered_only h session (executeAndWaitForStop_event h session fb w e)"
  unfolding gathered_only_def
  by (cases e)
     (fastforce simp: settle_def cleanup_def resolve_def request_stack_def
        Let_def split: sum.splits option.splits if_splits)+

lemma stop_run_gathered_only:
  "gathered_only h session w \<Longrightarrow>
     gathered_only h session (foldl (executeAndWaitForStop_event h session fb) w evs)"
  by (induction evs arbitrary: w) (simp_all add: stop_event_gathered_only)

lemma stopped_outcome_gathered:
  assumes "Stopped st r d t \<in> set (resolutions (executeAndWaitForStop h session fb evs))"
  shows "\<exists>tid. gatherStoppedState h session tid = Inr st"
proof -
  have "gathered_only h session (waiter_init :: outcome waiter)"
    by (simp add: gathered_only_def waiter_init_def)
  then have "gathered_only h session (executeAndWaitForStop h session fb evs)"
    unfolding executeAndWaitForStop_def by (rule stop_run_gathered_only)
  with assms show ?thesis
    unfolding gathered_only_def by blast
qed

lemma honoured_bound:
  assumes "honours_levels h"
    and "stackTrace_request h session (stack_request_for tid) = Inr resp"
  shows "length (frames_of resp) \<le> 20"
proof -
  have "0 < req_levels (stack_request_for tid)" by (simp add: stack_request_for_def)
  with assms have "int (length (frames_of resp)) \<le> req_levels (stack_request_for tid)"
    unfolding honours_levels_def by blast
  then show ?thesis by (simp add: stack_request_for_def)
qed

text \<open>
  Claim C8, as amended. Every stopped outcome of \<open>executeAndWaitForStop\<close> carries a state
  whose stack trace is not empty, whose file, line and column are those of the first
  frame of that stack trace, and whose stack trace has one frame for each frame of the
  host's answer to a request for 20 levels from frame 0; so it has at most 20 frames
  whenever the host honours the \<open>levels\<close> bound. When the host answers the request that
  follows a stopped event of the session with no frames, the operation resolves with
  the failure \<open>Stopped but failed to get state: No stack frames available\<close>.
\<close>

theorem stopped_outcome_state:
  "(\<forall>st r d t. Stopped st r d t \<in> set (resolutions (executeAndWaitForStop h session fb evs)) \<longrightarrow>
      stackTrace st \<noteq> []
      \<and> st_file st = fr_file (hd (stackTrace st))
      \<and> st_line st = fr_line (hd (stackTrace st))
      \<and> st_column st = fr_column (hd (stackTrace st))
      \<and> (\<exists>tid resp. stackTrace_request h session (stack_request_for tid) = Inr resp
            \<and> req_levels (stack_request_for tid) = 20
            \<and> req_startFrame (stack_request_for tid) = 0
            \<and> stackTrace st = map to_frame (frames_of resp))
      \<and> (honours_levels h \<longrightarrow> length (stackTrace st) \<le> 20))
   \<and> (stackTrace_request h session
          (stack_request_for (case opt_field body_threadId body of Some t \<Rightarrow> Some t | None \<Rightarrow> fb))
          = Inr resp \<and> frames_of resp = [] \<longrightarrow>
        resolutions (executeAndWaitForStop h session fb (StoppedEvent session body # post))
          = [NotStopped ''Stopped but failed to get state: No stack frames available''])"
proof (intro conjI allI impI)
  fix st r d t
  assume m: "Stopped st r d t \<in> set (resolutions (executeAndWaitForStop h session fb evs))"
  then obtain tid where g: "gatherStoppedState h session tid = Inr st"
    using stopped_outcome_gathered by blast
  note p = gathered_state [OF g]
  from p show "stackTrace st \<noteq> []" by blast
  from p show "st_file st = fr_file (hd (stackTrace st))" by blast
  from p show "st_line st = fr_line (hd (stackTrace st))" by blast
  from p show "st_column st = fr_column (hd (stackTrace st))" by blast
  from p obtain resp where r: "stackTrace_request h session (stack_request_for tid) = Inr resp"
    "stackTrace st = map to_frame (frames_of resp)" by blast
  then show "\<exists>tid resp. stackTrace_request h session (stack_request_for tid) = Inr resp
            \<and> req_levels (stack_request_for tid) = 20
            \<and> req_startFrame (stack_request_for tid) = 0
            \<and> stackTrace st = map to_frame (frames_of resp)"
    by (auto simp: stack_request_for_def)
  assume "honours_levels h"
  from honoured_bound [OF this r(1)] r(2) show "length (stackTrace st) \<le> 20" by simp
next
  let ?tid = "case opt_field body_threadId body of Some t \<Rightarrow> Some t | None \<Rightarrow> fb"
  assume a: "stackTrace_request h session (stack_request_for ?tid) = Inr resp \<and> frames_of resp = []"
  then have g: "gatherStoppedState h session ?tid = Inl (Error ''No stack frames available'')"
    using gathered_nothing by blast
  have f: "fires session (StoppedEvent session body)" by simp
  have "executeAndWaitForStop h session fb ([] @ StoppedEvent session body # post)
      = executeAndWaitForStop_event h session fb waiter_init (StoppedEvent session body)"
    by (rule stop_run_first [OF _ f]) simp
  then show "resolutions (executeAndWaitForStop h session fb (StoppedEvent session body # post))
          = [NotStopped ''Stopped but failed to get state: No stack frames available'']"
    using g by (simp add: waiter_init_def settle_def cleanup_def resolve_def request_stack_def Let_def)
qed

lemma scenario_host_honours_levels: "honours_levels scenario_host"
  by (auto simp: honours_levels_def scenario_host_def adapter_stackTrace_def frames_of_def
      split: if_splits)

lemma scenario_stop:
  "resolutions (executeAndWaitForStop scenario_host 1 None [StoppedEvent 1 (Some scenario_body)])
     = [Stopped \<lparr>st_file = ''/w/app.js'', st_line = 7, st_column = 1,
                 stackTrace = map to_frame (map scenario_frame [0, 1, 2])\<rparr>
          (Some ''breakpoint'') None None]"
  by (simp add: executeAndWaitForStop_def waiter_init_def settle_def cleanup_def resolve_def
      request_stack_def Let_def opt_field_def scenario_body_def scenario_host_def
      adapter_stackTrace_def gatherStoppedState_def stack_request_for_def frames_of_def
      scenario_frame_def frame_file_def)

theorem stopped_outcome_state_witness:
  "Stopped \<lparr>st_file = ''/w/app.js'', st_line = 7, st_column = 1,
             stackTrace = map to_frame (map scenario_frame [0, 1, 2])\<rparr>
       (Some ''breakpoint'') None None
     \<in> set (resolutions (executeAndWaitForStop scenario_host 1 None
               [StoppedEvent 1 (Some scenario_body)]))
   \<and> honours_levels scenario_host
   \<and> length (map to_frame (map scenario_frame [0, 1, 2])) \<le> 20
   \<and> stackTrace_request empty_stack_host 1 (stack_request_for (Some 1))
        = Inr \<lparr>stackFrames = Some []\<rparr>
   \<and> frames_of \<lparr>stackFrames = Some []\<rparr> = []
   \<and> resolutions (executeAndWaitForStop empty_stack_host 1 None
        [StoppedEvent 1 (Some scenario_body), TimerFired])
       = [NotStopped ''Stopped but failed to get state: No stack frames available'']"
proof -
  let ?st = "\<lparr>st_file = ''/w/app.js'', st_line = 7, st_column = 1,
             stackTrace = map to_frame (map scenario_frame [0, 1, 2])\<rparr>"
  have m: "Stopped ?st (Some ''breakpoint'') None None
     \<in> set (resolutions (executeAndWaitForStop scenario_host 1 None
               [StoppedEvent 1 (Some scenario_body)]))"
    unfolding scenario_stop by simp
  note t1 = stopped_outcome_state [of scenario_host 1 None "[StoppedEvent 1 (Some scenario_body)]",
      THEN conjunct1, rule_format, OF m]
  from t1 scenario_host_honours_levels have b: "length (stackTrace ?st) \<le> 20" by blast
  have e: "stackTrace_request empty_stack_host 1
        (stack_request_for (case opt_field body_threadId (Some scenario_body) of
            Some t \<Rightarrow> Some t | None \<Rightarrow> None))
      = Inr \<lparr>stackFrames = Some []\<rparr> \<and> frames_of \<lparr>stackFrames = Some []\<rparr> = []"
    by (simp add: empty_stack_host_def whole_stackTrace_def frames_of_def)
  note t2 = stopped_outcome_state [of empty_stack_host 1 None "[]" "Some scenario_body"
      "\<lparr>stackFrames = Some []\<rparr>" "[TimerFired]", THEN conjunct2, rule_format, OF e]
  have e': "stackTrace_request empty_stack_host 1 (stack_request_for (Some 1))
        = Inr \<lparr>stackFrames = Some []\<rparr> \<and> frames_of \<lparr>stackFrames = Some []\<rparr> = []"
    by (simp add: empty_stack_host_def whole_stackTrace_def frames_of_def)
  show ?thesis
    using m b t2 e' scenario_host_honours_levels by simp
qed

text \<open>
  On a host whose adapter returns 21 frames to the request, the stopped outcome carries
  all 21 of them: the handler passes on every frame of the answer.
\<close>

theorem stopped_outcome_over_twenty_frames:
  "resolutions (executeAndWaitForStop unbounded_host 1 None [StoppedEvent 1 (Some scenario_body)])
     = [Stopped \<lparr>st_file = ''/w/app.js'', st_line = 7, st_column = 1,
                 stackTrace = replicate 21 (to_frame (scenario_frame 0))\<rparr>
          (Some ''breakpoint'') None None]
   \<and> length (replicate 21 (to_frame (scenario_frame 0))) = 21
   \<and> \<not> length (replicate 21 (to_frame (scenario_frame 0))) \<le> 20"
proof -
  have r: "replicate 21 x = x # replicate 20 x" for x :: 'a
  proof -
    have "(21::nat) = Suc 20" by simp
    then show ?thesis by (simp only: replicate_Suc)
  qed
  show ?thesis
    by (simp add: r executeAndWaitForStop_def waiter_init_def settle_def cleanup_def resolve_def
        request_stack_def Let_def opt_field_def scenario_body_def scenario_host_def
        unbounded_host_def whole_stackTrace_def gatherStoppedState_def stack_request_for_def
        frames_of_def scenario_frame_def frame_file_def)
qed

section \<open>Properties of the wait for a launch\<close>

lemma launch_event_after_resolved:
  "resolved w \<Longrightarrow> waitForLaunchResult_event h w e = w"
  by (cases e) simp_all

lemma launch_run_first:
  assumes "resolved (waitForLaunchResult_event h waiter_init e)"
  shows "waitForLaunchResult h (e # post) = waitForLaunchResult_event h waiter_init e"
proof -
  have "foldl (waitForLaunchResult_event h) (waitForLaunchResult_event h waiter_init e) post
        = waitForLaunchResult_event h waiter_init e"
    by (rule foldl_fixed) (rule launch_event_after_resolved [OF assms])
  then show ?thesis
    by (simp add: waitForLaunchResult_def)
qed

lemma launch_stopped_first:
  "waitForLaunchResult h (StoppedEvent s body # post)
     = waitForLaunchResult_event h waiter_init (StoppedEvent s body)"
  by (rule launch_run_first)
     (simp add: waiter_init_def settle_def cleanup_def resolve_def request_stack_def
        split: option.splits sum.splits)

lemma launch_terminated_first:
  "waitForLaunchResult h (TerminatedEvent s # post)
     = waitForLaunchResult_event h waiter_init (TerminatedEvent s)"
  by (rule launch_run_first)
     (simp add: waiter_init_def settle_def cleanup_def resolve_def)

text \<open>
  Claim C9. The launch wait does not look at the session of an event. When the first
  thing that happens is a stopped event of any session \<open>s\<close> that carries a thread id,
  the host is asked once, for the stack of that thread in session \<open>s\<close>, and when it
  returns a state the launch resolves with that state, the event's reason, and the
  message \<open>Debug session started - stopped at file:line\<close>; when it is the termination
  of any session, the launch resolves with \<open>Debug session terminated\<close>; when it is a
  stopped event without a thread id, the launch resolves with the message
  \<open>Debug session started but no thread ID in stopped event\<close> and the host is not asked
  for a stack. Later events change nothing.
\<close>

theorem waitForLaunchResult_any_session:
  "(opt_field body_threadId body = Some tid \<and> gatherStoppedState h s (Some tid) = Inr st \<longrightarrow>
      resolutions (waitForLaunchResult h (StoppedEvent s body # post))
        = [LaunchStopped
             (stopped_reply_of ''Debug session started - stopped at '' st
                (opt_field body_reason body) (opt_field body_description body)
                (opt_field body_text body))]
      \<and> r_state (stopped_reply_of ''Debug session started - stopped at '' st
                (opt_field body_reason body) (opt_field body_description body)
                (opt_field body_text body)) = st
      \<and> stack_requests (waitForLaunchResult h (StoppedEvent s body # post))
          = [(s, stack_request_for (Some tid))])
   \<and> resolutions (waitForLaunchResult h (TerminatedEvent s # post))
        = [LaunchMessage ''Debug session terminated'']
   \<and> (opt_field body_threadId body = None \<longrightarrow>
        resolutions (waitForLaunchResult h (StoppedEvent s body # post))
          = [LaunchMessage ''Debug session started but no thread ID in stopped event'']
        \<and> stack_requests (waitForLaunchResult h (StoppedEvent s body # post)) = [])"
  unfolding launch_stopped_first launch_terminated_first
  by (simp add: waiter_init_def settle_def cleanup_def resolve_def request_stack_def
      stopped_reply_of_def)

theorem waitForLaunchResult_any_session_witness:
  "opt_field body_threadId (Some scenario_body) = Some 1
   \<and> gatherStoppedState scenario_host 2 (Some 1)
       = Inr \<lparr>st_file = ''/w/app.js'', st_line = 7, st_column = 1,
              stackTrace = map to_frame (map scenario_frame [0, 1, 2])\<rparr>
   \<and> resolutions (waitForLaunchResult scenario_host
        [StoppedEvent 2 (Some scenario_body), TerminatedEvent 2, TimerFired])
       = [LaunchStopped
            \<lparr>r_message = ''Debug session started - stopped at /w/app.js:7 (breakpoint)'',
             r_reason = Some ''breakpoint'',
             r_state = \<lparr>st_file = ''/w/app.js'', st_line = 7, st_column = 1,
                         stackTrace = map to_frame (map scenario_frame [0, 1, 2])\<rparr>,
             r_description = None, r_exceptionText = None\<rparr>]
   \<and> stack_requests (waitForLaunchResult scenario_host
        [StoppedEvent 2 (Some scenario_body), TerminatedEvent 2, TimerFired])
       = [(2, stack_request_for (Some 1))]
   \<and> opt_field body_threadId (None :: stopped_body option) = None
   \<and> resolutions (waitForLaunchResult scenario_host [StoppedEvent 5 None, TimerFired])
       = [LaunchMessage ''Debug session started but no thread ID in stopped event'']
   \<and> stack_requests (waitForLaunchResult scenario_host [StoppedEvent 5 None, TimerFired]) = []"
proof -
  let ?st = "\<lparr>st_file = ''/w/app.js'', st_line = 7, st_column = 1,
              stackTrace = map to_frame (map scenario_frame [0, 1, 2])\<rparr>"
  have h1: "opt_field body_threadId (Some scenario_body) = Some 1
      \<and> gatherStoppedState scenario_host 2 (Some 1) = Inr ?st"
    by (simp add: opt_field_def scenario_body_def scenario_host_def adapter_stackTrace_def
        gatherStoppedState_def stack_request_for_def frames_of_def scenario_frame_def
        frame_file_def)
  have h2: "opt_field body_threadId (None :: stopped_body option) = None"
    by (simp add: opt_field_def)
  have d: "string_of_int 7 = ''7''"
    by (simp add: string_of_int_def string_of_nat.simps digit_char_def)
  note t1 = waitForLaunchResult_any_session
    [of "Some scenario_body" 1 scenario_host 2 ?st "[TerminatedEvent 2, TimerFired]",
      THEN conjunct1, rule_format, OF h1]
  note t2 = waitForLaunchResult_any_session
    [of None 1 scenario_host 5 ?st "[TimerFired]",
      THEN conjunct2, THEN conjunct2, rule_format, OF h2]
  have m: "stopped_reply_of ''Debug session started - stopped at '' ?st
            (opt_field body_reason (Some scenario_body))
            (opt_field body_description (Some scenario_body))
            (opt_field body_text (Some scenario_body))
          = \<lparr>r_message = ''Debug session started - stopped at /w/app.js:7 (breakpoint)'',
             r_reason = Some ''breakpoint'', r_state = ?st,
             r_description = None, r_exceptionText = None\<rparr>"
    by (simp add: stopped_reply_of_def opt_field_def scenario_body_def d)
  show ?thesis
    using h1 h2 t1 t2 unfolding m by simp
qed

section \<open>Properties of the execute tool\<close>

lemma scenario_prepared:
  "prepare_config scenario_host ''/w'' (scenario_args\<lparr>action := ''launch''\<rparr>) scenario_config
     = [(''type'', JString ''node''), (''request'', JString ''launch''),
        (''name'', JString ''Launch Program''), (''program'', JString ''/w/app.js'')]"
  by (simp add: prepare_config_def scenario_host_def scenario_args_def scenario_config_def)

lemma launch_no_match:
  assumes "\<forall>c \<in> set cfgs. map_of c ''name'' \<noteq> Some (JString n)"
  shows "find (\<lambda>c. map_of c ''name'' = Some (JString n)) cfgs = None"
  using assms by (simp add: find_None_iff)

text \<open>
  Claim C2, as amended. For a launch call with a workspace folder open: when a
  non-empty configuration name is given, configurations exist and none has that name,
  the call throws \<open>Configuration "name" not found. Available: \<close> followed by the names
  of the configurations, joined by commas; when no name (or the empty name) is given
  and there is exactly one configuration, that one is chosen, and the call goes on to
  start it with its placeholders replaced unless a debug session is already active,
  in which case it only answers \<open>Debug session already active\<close>; when no name is given
  and there are several configurations, the call returns their names and starts
  nothing; when there is no configuration, the call throws
  \<open>No debug configurations found in launch.json\<close>, whatever the debugger's state is.
\<close>

theorem launch_configuration_choice:
  assumes "action args = ''launch''" and "first_workspaceFolder h = Some ws"
  shows
   "(configurationName args = Some n \<and> n \<noteq> [] \<and> configurations h = Some cfgs \<and> cfgs \<noteq> []
       \<and> (\<forall>c \<in> set cfgs. map_of c ''name'' \<noteq> Some (JString n)) \<longrightarrow>
      handleExecute h args =
        Inl (Error (''Configuration \"'' @ n @ ''\" not found. Available: ''
               @ join_text '', '' (map (\<lambda>c. join_element (map_of c ''name'')) cfgs))))
    \<and> (\<not> truthy_str (configurationName args) \<and> configurations h = Some [c] \<longrightarrow>
         handleExecute h args =
           (case activeDebugSession h of
              None \<Rightarrow> Inr (WaitForLaunchResult ws (prepare_config h ws args c))
            | Some active \<Rightarrow> Inr (Return (Message ''Debug session already active''))))
    \<and> (\<not> truthy_str (configurationName args) \<and> configurations h = Some cfgs
          \<and> 1 < length cfgs \<longrightarrow>
         handleExecute h args =
           Inr (Return (MultipleConfigurations
                  ''Multiple debug configurations available. Specify configurationName.''
                  (map (\<lambda>c. map_of c ''name'') cfgs))))
    \<and> (configurations h = None \<or> configurations h = Some [] \<longrightarrow>
         handleExecute h args = Inl (Error ''No debug configurations found in launch.json'')
         \<and> handleExecute
              (h\<lparr>activeDebugSession := a, activeStackItem := i, threads_request := tr,
                 stackTrace_request := sr\<rparr>) args
             = Inl (Error ''No debug configurations found in launch.json''))"
proof (intro conjI impI)
  assume a: "configurationName args = Some n \<and> n \<noteq> [] \<and> configurations h = Some cfgs \<and> cfgs \<noteq> []
       \<and> (\<forall>c \<in> set cfgs. map_of c ''name'' \<noteq> Some (JString n))"
  then have f: "find (\<lambda>c. map_of c ''name'' = Some (JString n)) cfgs = None"
    using launch_no_match by blast
  from a obtain c0 cs where c: "cfgs = c0 # cs" by (cases cfgs) auto
  have "choose_config args (c0 # cs) =
      Inl (Inl (Error (''Configuration \"'' @ n @ ''\" not found. Available: ''
               @ join_text '', '' (map (\<lambda>c. join_element (map_of c ''name'')) (c0 # cs)))))"
    using a f unfolding c choose_config_def by simp
  then show "handleExecute h args =
        Inl (Error (''Configuration \"'' @ n @ ''\" not found. Available: ''
               @ join_text '', '' (map (\<lambda>c. join_element (map_of c ''name'')) cfgs)))"
    using assms a unfolding c handleExecute_def by simp
next
  assume a: "\<not> truthy_str (configurationName args) \<and> configurations h = Some [c]"
  then have "choose_config args [c] = Inr c"
    by (simp add: choose_config_def)
  then show "handleExecute h args =
           (case activeDebugSession h of
              None \<Rightarrow> Inr (WaitForLaunchResult ws (prepare_config h ws args c))
            | Some active \<Rightarrow> Inr (Return (Message ''Debug session already active'')))"
    using assms a unfolding handleExecute_def by (simp split: option.splits)
next
  assume a: "\<not> truthy_str (configurationName args) \<and> configurations h = Some cfgs
          \<and> 1 < length cfgs"
  then obtain c0 cs where c: "cfgs = c0 # cs" by (cases cfgs) auto
  have "choose_config args (c0 # cs) =
      Inl (Inr (MultipleConfigurations
                  ''Multiple debug configurations available. Specify configurationName.''
                  (map (\<lambda>c. map_of c ''name'') (c0 # cs))))"
    using a unfolding c choose_config_def by simp
  then show "handleExecute h args =
           Inr (Return (MultipleConfigurations
                  ''Multiple debug configurations available. Specify configurationName.''
                  (map (\<lambda>c. map_of c ''name'') cfgs)))"
    using assms a unfolding c handleExecute_def by simp
next
  assume a: "configurations h = None \<or> configurations h = Some []"
  then show "handleExecute h args = Inl (Error ''No debug configurations found in launch.json'')"
    using assms unfolding handleExecute_def by auto
  from a show "handleExecute
              (h\<lparr>activeDebugSession := a, activeStackItem := i, threads_request := tr,
                 stackTrace_request := sr\<rparr>) args
             = Inl (Error ''No debug configurations found in launch.json'')"
    using assms unfolding handleExecute_def first_workspaceFolder_def by auto
qed

theorem launch_configuration_choice_witness:
  "handleExecute two_config_host (scenario_args\<lparr>action := ''launch'', configurationName := Some ''Nope''\<rparr>)
     = Inl (Error ''Configuration \"Nope\" not found. Available: Launch Program, Launch Tests'')
   \<and> handleExecute scenario_host (scenario_args\<lparr>action := ''launch''\<rparr>)
     = Inr (WaitForLaunchResult ''/w''
         [(''type'', JString ''node''), (''request'', JString ''launch''),
          (''name'', JString ''Launch Program''), (''program'', JString ''/w/app.js'')])
   \<and> handleExecute two_config_host (scenario_args\<lparr>action := ''launch''\<rparr>)
     = Inr (Return (MultipleConfigurations
          ''Multiple debug configurations available. Specify configurationName.''
          [Some (JString ''Launch Program''), Some (JString ''Launch Tests'')]))
   \<and> handleExecute no_config_host (scenario_args\<lparr>action := ''launch''\<rparr>)
     = Inl (Error ''No debug configurations found in launch.json'')"
proof -
  let ?l = "scenario_args\<lparr>action := ''launch''\<rparr>"
  let ?n = "scenario_args\<lparr>action := ''launch'', configurationName := Some ''Nope''\<rparr>"
  have w: "first_workspaceFolder two_config_host = Some ''/w''"
    "first_workspaceFolder scenario_host = Some ''/w''"
    "first_workspaceFolder no_config_host = Some ''/w''"
    by (simp_all add: first_workspaceFolder_def two_config_host_def no_config_host_def
        scenario_host_def)
  have l: "action ?l = ''launch''" "action ?n = ''launch''" by simp_all
  have n: "\<not> truthy_str (configurationName ?l)" by (simp add: scenario_args_def)
  have h1: "configurationName ?n = Some ''Nope'' \<and> ''Nope'' \<noteq> []
      \<and> configurations two_config_host = Some [scenario_config, tests_config]
      \<and> [scenario_config, tests_config] \<noteq> []
      \<and> (\<forall>c \<in> set [scenario_config, tests_config]. map_of c ''name'' \<noteq> Some (JString ''Nope''))"
    by (simp add: two_config_host_def scenario_host_def scenario_config_def tests_config_def)
  have h2: "\<not> truthy_str (configurationName ?l)
      \<and> configurations scenario_host = Some [scenario_config]"
    using n by (simp add: scenario_host_def)
  have h3: "\<not> truthy_str (configurationName ?l)
      \<and> configurations two_config_host = Some [scenario_config, tests_config]
      \<and> 1 < length [scenario_config, tests_config]"
    using n by (simp add: two_config_host_def scenario_host_def)
  have h4: "configurations no_config_host = None \<or> configurations no_config_host = Some []"
    by (simp add: no_config_host_def)
  note t1 = launch_configuration_choice [OF l(2) w(1), THEN conjunct1, rule_format, OF h1]
  note t2 = launch_configuration_choice [OF l(1) w(2), THEN conjunct2, THEN conjunct1,
      rule_format, OF h2]
  note t3 = launch_configuration_choice [OF l(1) w(1), THEN conjunct2, THEN conjunct2,
      THEN conjunct1, rule_format, OF h3]
  note t4 = launch_configuration_choice [OF l(1) w(3), THEN conjunct2, THEN conjunct2,
      THEN conjunct2, rule_format, OF h4, THEN conjunct1]
  have a1: "join_text '', '' (map (\<lambda>c. join_element (map_of c ''name'')) [scenario_config, tests_config])
      = ''Launch Program, Launch Tests''"
    by (simp add: join_element_def scenario_config_def tests_config_def)
  have a2: "activeDebugSession scenario_host = None" by (simp add: scenario_host_def)
  have a3: "map (\<lambda>c. map_of c ''name'') [scenario_config, tests_config]
      = [Some (JString ''Launch Program''), Some (JString ''Launch Tests'')]"
    by (simp add: scenario_config_def tests_config_def)
  show ?thesis
    using t1 t2 t3 t4 unfolding a1 a2 a3 scenario_prepared by simp
qed

text \<open>
  With a debug session already active the only configuration is chosen but not
  started; an empty configuration name is read as no name, so the only configuration
  is started although none has that name; and without a workspace folder the call
  throws \<open>No workspace folder found\<close> before it looks at the configurations.
\<close>

theorem launch_not_always_started:
  "handleExecute active_host (scenario_args\<lparr>action := ''launch''\<rparr>)
     = Inr (Return (Message ''Debug session already active''))
   \<and> handleExecute scenario_host (scenario_args\<lparr>action := ''launch'', configurationName := Some []\<rparr>)
     = Inr (WaitForLaunchResult ''/w''
         [(''type'', JString ''node''), (''request'', JString ''launch''),
          (''name'', JString ''Launch Program''), (''program'', JString ''/w/app.js'')])
   \<and> handleExecute no_workspace_host (scenario_args\<lparr>action := ''launch''\<rparr>)
     = Inl (Error ''No workspace folder found'')"
  by (simp add: handleExecute_def first_workspaceFolder_def choose_config_def prepare_config_def
      active_host_def no_workspace_host_def scenario_host_def scenario_args_def
      scenario_config_def)

text \<open>
  Claim C6, as amended. For a continue or step call with an active session and a
  thread that resolves: without a thread id and without a granularity the action goes
  through the host command of that action; with a thread id, or for a step action with
  a non-empty granularity, it goes through the DAP request of that action (\<open>continue\<close>,
  \<open>next\<close>, \<open>stepIn\<close>, \<open>stepOut\<close>) with the resolved thread id, which is the given one
  when one is given, and with the granularity for a step action. A granularity alone
  does not move \<open>continue\<close> off the host command, and \<open>continue\<close> never carries one.
\<close>

theorem step_dispatch_path:
  assumes "action args \<in> {''continue'', ''stepOver'', ''stepIn'', ''stepOut''}"
    and "activeDebugSession h = Some session"
    and "resolveThreadId h session (threadId args) = Inr tid"
  shows
   "(threadId args = None \<and> (\<not> truthy_str (granularity args) \<or> action args = ''continue'') \<longrightarrow>
       handleExecute h args =
         Inr (ExecuteAndWaitForStop session (ExecuteCommand (vscodeCommandMap (action args))) tid))
    \<and> (threadId args \<noteq> None \<or> (truthy_str (granularity args) \<and> action args \<noteq> ''continue'') \<longrightarrow>
       handleExecute h args =
         Inr (ExecuteAndWaitForStop session
               (CustomRequest (dapCommandMap (action args))
                  \<lparr>dap_threadId = tid,
                   dap_granularity =
                     (if truthy_str (granularity args) \<and> action args \<noteq> ''continue''
                      then granularity args else None)\<rparr>) tid))
    \<and> (\<forall>t. threadId args = Some t \<longrightarrow> tid = t)
    \<and> dapCommandMap ''continue'' = ''continue'' \<and> dapCommandMap ''stepOver'' = ''next''
    \<and> dapCommandMap ''stepIn'' = ''stepIn'' \<and> dapCommandMap ''stepOut'' = ''stepOut''
    \<and> vscodeCommandMap ''continue'' = ''workbench.action.debug.continue''
    \<and> vscodeCommandMap ''stepOver'' = ''workbench.action.debug.stepOver''
    \<and> vscodeCommandMap ''stepIn'' = ''workbench.action.debug.stepInto''
    \<and> vscodeCommandMap ''stepOut'' = ''workbench.action.debug.stepOut''"
proof -
  have na: "action args \<noteq> ''launch''" "action args \<noteq> ''stop''"
    using assms(1) by auto
  have m: "dapCommandMap ''continue'' = ''continue'' \<and> dapCommandMap ''stepOver'' = ''next''
    \<and> dapCommandMap ''stepIn'' = ''stepIn'' \<and> dapCommandMap ''stepOut'' = ''stepOut''
    \<and> vscodeCommandMap ''continue'' = ''workbench.action.debug.continue''
    \<and> vscodeCommandMap ''stepOver'' = ''workbench.action.debug.stepOver''
    \<and> vscodeCommandMap ''stepIn'' = ''workbench.action.debug.stepInto''
    \<and> vscodeCommandMap ''stepOut'' = ''workbench.action.debug.stepOut''"
    by (simp add: dapCommandMap_def vscodeCommandMap_def)
  have t: "\<forall>t. threadId args = Some t \<longrightarrow> tid = t"
    using assms(3) by (auto simp: resolveThreadId_def)
  have e: "handleExecute h args =
      Inr (ExecuteAndWaitForStop session
        (if threadId args \<noteq> None \<or> (truthy_str (granularity args) \<and> action args \<noteq> ''continue'')
         then CustomRequest (dapCommandMap (action args))
                \<lparr>dap_threadId = tid,
                 dap_granularity =
                   (if truthy_str (granularity args) \<and> action args \<noteq> ''continue''
                    then granularity args else None)\<rparr>
         else ExecuteCommand (vscodeCommandMap (action args))) tid)"
    using assms na unfolding handleExecute_def by (simp add: Let_def)
  show ?thesis
    using m t e by auto
qed

theorem step_dispatch_path_witness:
  "handleExecute active_host (scenario_args\<lparr>action := ''stepOver'', granularity := Some ''line''\<rparr>)
     = Inr (ExecuteAndWaitForStop 1
         (CustomRequest ''next'' \<lparr>dap_threadId = 1, dap_granularity = Some ''line''\<rparr>) 1)
   \<and> handleExecute active_host (scenario_args\<lparr>action := ''continue'', threadId := Some 7\<rparr>)
     = Inr (ExecuteAndWaitForStop 1
         (CustomRequest ''continue'' \<lparr>dap_threadId = 7, dap_granularity = None\<rparr>) 7)
   \<and> handleExecute active_host (scenario_args\<lparr>action := ''stepIn''\<rparr>)
     = Inr (ExecuteAndWaitForStop 1 (ExecuteCommand ''workbench.action.debug.stepInto'') 1)"
proof -
  let ?o = "scenario_args\<lparr>action := ''stepOver'', granularity := Some ''line''\<rparr>"
  let ?c = "scenario_args\<lparr>action := ''continue'', threadId := Some 7\<rparr>"
  let ?i = "scenario_args\<lparr>action := ''stepIn''\<rparr>"
  have s: "activeDebugSession active_host = Some 1"
    by (simp add: active_host_def)
  have r: "resolveThreadId active_host 1 (threadId ?o) = Inr 1"
    "resolveThreadId active_host 1 (threadId ?c) = Inr 7"
    "resolveThreadId active_host 1 (threadId ?i) = Inr 1"
    by (simp_all add: resolveThreadId_def active_host_def scenario_host_def scenario_args_def)
  have a: "action ?o \<in> {''continue'', ''stepOver'', ''stepIn'', ''stepOut''}"
    "action ?c \<in> {''continue'', ''stepOver'', ''stepIn'', ''stepOut''}"
    "action ?i \<in> {''continue'', ''stepOver'', ''stepIn'', ''stepOut''}"
    by simp_all
  have g: "threadId ?o \<noteq> None \<or> (truthy_str (granularity ?o) \<and> action ?o \<noteq> ''continue'')"
    "threadId ?c \<noteq> None \<or> (truthy_str (granularity ?c) \<and> action ?c \<noteq> ''continue'')"
    "threadId ?i = None \<and> (\<not> truthy_str (granularity ?i) \<or> action ?i = ''continue'')"
    by (simp_all add: scenario_args_def)
  note t1 = step_dispatch_path [OF a(1) s r(1), THEN conjunct2, THEN conjunct1, rule_format, OF g(1)]
  note t2 = step_dispatch_path [OF a(2) s r(2), THEN conjunct2, THEN conjunct1, rule_format, OF g(2)]
  note t3 = step_dispatch_path [OF a(3) s r(3), THEN conjunct1, rule_format, OF g(3)]
  show ?thesis
    using t1 t2 t3
    by (simp add: dapCommandMap_def vscodeCommandMap_def scenario_args_def)
qed

text \<open>
  A \<open>continue\<close> call that gives a granularity and no thread id runs the host command.
\<close>

theorem continue_with_granularity_uses_host_command:
  "handleExecute active_host (scenario_args\<lparr>action := ''continue'', granularity := Some ''line''\<rparr>)
     = Inr (ExecuteAndWaitForStop 1 (ExecuteCommand ''workbench.action.debug.continue'') 1)"
  by (simp add: handleExecute_def resolveThreadId_def vscodeCommandMap_def active_host_def
      scenario_host_def scenario_args_def Let_def)

section \<open>Properties of the /tcp endpoint\<close>

lemma tcp_known_requests:
  "tcp_endpoint tools hs (Inr (JObject [(''type'', JString ''listTools'')]))
     = \<lparr>status = 200, success = True, data = Some (JObject [(''tools'', tools)]), error = None\<rparr>
   \<and> tcp_endpoint tools hs (Inl (Error m))
     = \<lparr>status = 500, success = False, data = None, error = Some m\<rparr>
   \<and> tcp_endpoint tools hs
        (Inr (JObject [(''type'', JString ''callTool''), (''tool'', JString ''nonexistent_tool'')]))
     = \<lparr>status = 500, success = False, data = None, error = Some ''Unknown tool: nonexistent_tool''\<rparr>"
  by (simp add: tcp_endpoint_def ok_response_def error_response_def handleCommand_def
      request_prop_def template_text_def)

text \<open>
  Claim C7. A body that parses to a value other than \<open>null\<close> whose \<open>type\<close> is neither
  \<open>listTools\<close> nor \<open>callTool\<close> (an unrecognized type, or none at all) is answered with
  status 200 and the envelope \<open>{success: true}\<close>, without data and without an error:
  it is not rejected with a failure envelope.
\<close>

theorem tcp_unrecognized_type_is_success:
  "get_prop request ''type'' = Inr ty \<and> ty \<noteq> Some (JString ''listTools'')
     \<and> ty \<noteq> Some (JString ''callTool'') \<longrightarrow>
   tcp_endpoint tools hs (Inr request)
     = \<lparr>status = 200, success = True, data = None, error = None\<rparr>"
  by (simp add: tcp_endpoint_def ok_response_def)

theorem tcp_unrecognized_type_is_success_witness:
  "get_prop (JObject [(''type'', JString ''bogus'')]) ''type'' = Inr (Some (JString ''bogus''))
   \<and> tcp_endpoint (JArray []) scenario_handlers
        (Inr (JObject [(''type'', JString ''bogus'')]))
     = \<lparr>status = 200, success = True, data = None, error = None\<rparr>
   \<and> get_prop (JNum 5) ''type'' = Inr None
   \<and> tcp_endpoint (JArray []) scenario_handlers
        (Inr (JNum 5))
     = \<lparr>status = 200, success = True, data = None, error = None\<rparr>"
proof -
  have h1: "get_prop (JObject [(''type'', JString ''bogus'')]) ''type'' = Inr (Some (JString ''bogus''))
      \<and> Some (JString ''bogus'') \<noteq> Some (JString ''listTools'')
      \<and> Some (JString ''bogus'') \<noteq> Some (JString ''callTool'')"
    by simp
  have h2: "get_prop (JNum 5) ''type'' = Inr None \<and> None \<noteq> Some (JString ''listTools'')
      \<and> None \<noteq> Some (JString ''callTool'')"
    by simp
  from tcp_unrecognized_type_is_success [of "JObject [(''type'', JString ''bogus'')]"
      "Some (JString ''bogus'')" "JArray []" scenario_handlers, rule_format, OF h1]
    tcp_unrecognized_type_is_success [of "JNum 5" None "JArray []" scenario_handlers, rule_format, OF h2]
    h1 h2
  show ?thesis by simp
qed

end
